theory Spec2Isabelle
  imports Complex_Main
begin

section \<open>The communicator of the fan-club master (FCCommunicator.py)\<close>

text \<open>
  A shallow embedding of the network back-end: the device registry, the discovery
  listener, the per-device worker (handshake and steady-state exchange), the control
  vector dispatch and the output publisher.

  Conventions. Python exceptions are values of \<open>exn\<close>; a function that may raise
  returns \<open>exn + 'a\<close>. The threads of the program are modelled one step at a time, each
  step taking what it reads from its environment (a datagram, the answer of the registry
  lock, the device's mailbox) as an argument. Sockets accept every datagram handed to
  \<open>sendto\<close>; what is sent is recorded in a trace. Printing and logging are not modelled,
  except that the handler an exception reaches is part of a step's result.
\<close>

subsection \<open>Python values\<close>

datatype exn = ValueError | IndexError | NameError | AttributeError | TypeError
  | OverflowError | UnicodeDecodeError

text \<open>\<open>xs[i]\<close> for a Python list or tuple: a negative index counts from the end.\<close>

definition py_pos :: "'a list \<Rightarrow> int \<Rightarrow> nat option" where
  "py_pos xs i =
     (if 0 \<le> i \<and> i < int (length xs) then Some (nat i)
      else if i < 0 \<and> - int (length xs) \<le> i then Some (nat (int (length xs) + i))
      else None)"

definition py_nth :: "'a list \<Rightarrow> int \<Rightarrow> exn + 'a" where
  "py_nth xs i = (case py_pos xs i of None \<Rightarrow> Inl IndexError | Some k \<Rightarrow> Inr (xs ! k))"

text \<open>\<open>s.split(sep)\<close> for a one-character separator: at least one piece is returned.\<close>

fun split :: "char \<Rightarrow> string \<Rightarrow> string list" where
  "split sep [] = [[]]"
| "split sep (c # cs) =
     (if c = sep then [] # split sep cs
      else (case split sep cs of [] \<Rightarrow> [[c]] | w # ws \<Rightarrow> (c # w) # ws))"

text \<open>
  \<open>int(s)\<close> for a string of ASCII characters: surrounding whitespace (tab, line feed,
  vertical tab, form feed, carriage return, space) is stripped, one sign is allowed, and
  the digits may be grouped by single underscores. \<open>None\<close> stands for the \<open>ValueError\<close>,
  which the interpreter also raises for a numeral of more than 4300 digits (the default
  of \<open>sys.get_int_max_str_digits\<close>, which the program does not change).
\<close>

definition is_space :: "char \<Rightarrow> bool" where
  "is_space c = (of_char c \<in> {9, 10, 11, 12, 13, 32 :: nat})"

definition is_digit :: "char \<Rightarrow> bool" where
  "is_digit c = (48 \<le> (of_char c :: nat) \<and> (of_char c :: nat) \<le> 57)"

definition strip :: "string \<Rightarrow> string" where
  "strip s = rev (dropWhile is_space (rev (dropWhile is_space s)))"

fun digits :: "bool \<Rightarrow> nat \<Rightarrow> string \<Rightarrow> nat option" where
  "digits after_digit acc [] = (if after_digit then Some acc else None)"
| "digits after_digit acc (c # cs) =
     (if is_digit c then digits True (10 * acc + (of_char c - 48)) cs
      else if c = CHR ''_'' \<and> after_digit then digits False acc cs
      else None)"

definition py_int :: "string \<Rightarrow> int option" where
  "py_int s =
     (case strip s of
        [] \<Rightarrow> None
      | c # cs \<Rightarrow>
          (let body = (if c = CHR ''-'' \<or> c = CHR ''+'' then cs else c # cs) in
           if 4300 < length (filter is_digit body) then None
           else if c = CHR ''-'' then map_option (\<lambda>n. - int n) (digits False 0 body)
           else map_option int (digits False 0 body)))"

text \<open>
  A Python \<open>float\<close>: a finite value, an infinity or a NaN (\<open>float\<close> reads the texts
  \<open>inf\<close> and \<open>nan\<close>).
\<close>

datatype pyfloat = Finite real | PosInf | NegInf | NaN

text \<open>\<open>"{}".format(i)\<close> for an integer: its decimal numeral.\<close>

fun str_nat :: "nat \<Rightarrow> string" where
  "str_nat n =
     (if n < 10 then [char_of (48 + n)] else str_nat (n div 10) @ [char_of (48 + n mod 10)])"

declare str_nat.simps [simp del]

definition str_int :: "int \<Rightarrow> string" where
  "str_int i = (if i < 0 then CHR ''-'' # str_nat (nat (- i)) else str_nat (nat i))"

definition is_ascii :: "string \<Rightarrow> bool" where
  "is_ascii s = (\<forall>c \<in> set s. (of_char c :: nat) < 128)"

subsection \<open>Device records and the registry\<close>

datatype status = SS_AVAILABLE | SS_KNOWN | SS_CONNECTED | SS_UPDATING | SS_DISCONNECTED

text \<open>
  The fields of an \<open>FCSlave\<close> object that the communicator reads and writes. \<open>miso\<close> is
  the feedback pair (RPMs, DCs) behind \<open>getMISO\<close>/\<open>setMISO\<close>; \<open>started\<close> records that
  the worker thread has been started.
\<close>

record slave =
  index :: nat
  name :: string
  mac :: string
  fans :: nat
  status :: status
  version :: "string option"
  ip :: "string option"
  misoP :: "int option"
  mosiP :: "int option"
  mosiIndex :: int
  misoIndex :: int
  dataIndex :: int
  dropIndex :: int
  miso :: "int list \<times> pyfloat list"
  started :: bool

type_synonym stateVector = "nat \<times> string \<times> string \<times> status \<times> nat \<times> string option"

type_synonym address = "string \<times> int"

record comm =
  slaves :: "slave list"
  macToIndexMap :: "string \<rightharpoonup> nat"
  flashFlag :: bool
  targetVersion :: "string option"
  flashMessage :: string
  listenerSent :: "(string \<times> address) list"
  slavePipe :: "stateVector list list"
  slaveUpdateQueue :: "stateVector list"

text \<open>
  The values read from the profile; two values fixed by code that is not among the
  sources: the feedback pair that the constructor of \<open>FCSlave\<close> gives a new record
  (\<open>initialMISO\<close>) and the constants of the handshake descriptor (\<open>hskParams\<close>); and
  the number of bits of the platform's integer that numpy takes for \<open>dtype=int\<close>
  (\<open>intBits\<close>: 64, or 32 where the C \<open>long\<close> has 32 bits).
\<close>

record config =
  passcode :: string
  maxFans :: nat
  maxTimeouts :: int
  defaultFans :: nat
  initialMISO :: "int list \<times> pyfloat list"
  hskParams :: string
  intBits :: nat

definition getSlaveStateVector :: "slave \<Rightarrow> stateVector" where
  "getSlaveStateVector sl = (index sl, name sl, mac sl, status sl, fans sl, version sl)"

text \<open>
  Modelled from the spec: \<open>FCSlave.setStatus\<close> is not among the sources. It sets the
  status and, when network arguments are given, records the learned endpoint and version;
  the worker's comment at the call for DISCONNECTED says that the call also resets the
  exchange indices.
\<close>

definition setStatus :: "status \<Rightarrow> (string \<times> int \<times> int \<times> string) option \<Rightarrow> slave \<Rightarrow> slave" where
  "setStatus newStatus netargs sl =
     (let sl1 = (case netargs of
                   None \<Rightarrow> sl\<lparr>status := newStatus\<rparr>
                 | Some (newIP, newMISOP, newMOSIP, newVersion) \<Rightarrow>
                     sl\<lparr>status := newStatus, version := Some newVersion, ip := Some newIP,
                        misoP := Some newMISOP, mosiP := Some newMOSIP\<rparr>)
      in if newStatus = SS_DISCONNECTED then sl1\<lparr>mosiIndex := 0, misoIndex := 0\<rparr> else sl1)"

text \<open>
  Modelled from the spec: the accessors of \<open>FCSlave\<close> are not among the sources. Each
  writes the field it is named after (the getters read it): the outbound and inbound
  sequence counters, the index of the last telemetry applied, the count of dropped
  packets, the latest feedback pair and the firmware version. \<open>resetIndices\<close> sets the
  two sequence counters to zero.
\<close>

definition incrementMOSIIndex :: "slave \<Rightarrow> slave" where
  "incrementMOSIIndex sl = sl\<lparr>mosiIndex := mosiIndex sl + 1\<rparr>"

definition setMOSIIndex :: "int \<Rightarrow> slave \<Rightarrow> slave" where
  "setMOSIIndex n sl = sl\<lparr>mosiIndex := n\<rparr>"

definition setMISOIndex :: "int \<Rightarrow> slave \<Rightarrow> slave" where
  "setMISOIndex n sl = sl\<lparr>misoIndex := n\<rparr>"

definition setDataIndex :: "int \<Rightarrow> slave \<Rightarrow> slave" where
  "setDataIndex n sl = sl\<lparr>dataIndex := n\<rparr>"

definition incrementDropIndex :: "slave \<Rightarrow> slave" where
  "incrementDropIndex sl = sl\<lparr>dropIndex := dropIndex sl + 1\<rparr>"

definition setMISO :: "int list \<times> pyfloat list \<Rightarrow> slave \<Rightarrow> slave" where
  "setMISO pair sl = sl\<lparr>miso := pair\<rparr>"

definition setVersion :: "string \<Rightarrow> slave \<Rightarrow> slave" where
  "setVersion v sl = sl\<lparr>version := Some v\<rparr>"

definition resetIndices :: "slave \<Rightarrow> slave" where
  "resetIndices sl = sl\<lparr>mosiIndex := 0, misoIndex := 0\<rparr>"

declare incrementMOSIIndex_def [simp] setMOSIIndex_def [simp] setMISOIndex_def [simp]
  setDataIndex_def [simp] incrementDropIndex_def [simp] setMISO_def [simp]
  setVersion_def [simp] resetIndices_def [simp]

text \<open>
  \<open>setSlaveStatus\<close>, for the device at position \<open>k\<close> of the registry. \<open>lock_ok\<close> is the
  answer of \<open>safe_acquire_lock\<close>: when the registry lock is not acquired within the
  timeout the update is skipped.
\<close>

definition setSlaveStatus ::
  "bool \<Rightarrow> nat \<Rightarrow> status \<Rightarrow> (string \<times> int \<times> int \<times> string) option \<Rightarrow> comm \<Rightarrow> comm" where
  "setSlaveStatus lock_ok k newStatus netargs c =
     (if lock_ok then
        (let sl = setStatus newStatus netargs (slaves c ! k)
         in c\<lparr>slaves := (slaves c)[k := sl],
              slaveUpdateQueue := slaveUpdateQueue c @ [getSlaveStateVector sl]\<rparr>)
      else c)"

subsection \<open>The discovery listener\<close>

text \<open>
  Modelled from the spec: the constructor of \<open>FCSlave\<close> is not among the sources. A new
  record stores the arguments of the constructor and has its exchange, data and drop
  indices at zero; its worker thread is not yet started. Neither the sources nor the
  specification say what feedback pair a new record holds: it is the parameter
  \<open>initialMISO\<close>, and no property below depends on its value.
\<close>

definition FCSlave ::
  "config \<Rightarrow> string \<Rightarrow> string \<Rightarrow> nat \<Rightarrow> status \<Rightarrow> string option \<Rightarrow> string option
     \<Rightarrow> int option \<Rightarrow> int option \<Rightarrow> nat \<Rightarrow> slave" where
  "FCSlave cfg newName newMac newFans newStatus newVersion newIP newMisoP newMosiP newIndex =
     \<lparr>index = newIndex, name = newName, mac = newMac, fans = newFans, status = newStatus,
      version = newVersion, ip = newIP, misoP = newMisoP, mosiP = newMosiP,
      mosiIndex = 0, misoIndex = 0, dataIndex = 0, dropIndex = 0,
      miso = initialMISO cfg,
      started = False\<rparr>"

definition sendSlaves :: "comm \<Rightarrow> comm" where
  "sendSlaves c = c\<lparr>slavePipe := slavePipe c @ [map getSlaveStateVector (slaves c)]\<rparr>"

definition listenerSendto :: "string \<Rightarrow> address \<Rightarrow> comm \<Rightarrow> comm" where
  "listenerSendto datagram addr c = c\<lparr>listenerSent := listenerSent c @ [(datagram, addr)]\<rparr>"

text \<open>
  The body of the branch for a message of the MkII (first character \<open>A\<close>), inside its
  \<open>try\<close>. An exception is returned with the state at the moment it is raised. The two
  checks of the port numbers format their message with the names \<open>miso\<close> and \<open>mosi\<close>,
  which are bound nowhere in the module: evaluating either raises \<open>NameError\<close>.
  \<open>newName\<close> is the name drawn by \<open>rd.choice\<close>.
\<close>

definition announce ::
  "config \<Rightarrow> bool \<Rightarrow> string \<Rightarrow> string list \<Rightarrow> address \<Rightarrow> comm \<Rightarrow> (exn \<times> comm) + comm" where
  "announce cfg lock_ok newName messageSplitted senderAddress c =
    (case py_nth messageSplitted 2 of Inl e \<Rightarrow> Inl (e, c) | Inr mac' \<Rightarrow>
     case py_nth messageSplitted 3 of Inl e \<Rightarrow> Inl (e, c) | Inr kind \<Rightarrow>
     if kind = ''N'' then
      (case py_nth messageSplitted 4 of Inl e \<Rightarrow> Inl (e, c) | Inr f4 \<Rightarrow>
       case py_int f4 of None \<Rightarrow> Inl (ValueError, c) | Some misoPort \<Rightarrow>
       case py_nth messageSplitted 5 of Inl e \<Rightarrow> Inl (e, c) | Inr f5 \<Rightarrow>
       case py_int f5 of None \<Rightarrow> Inl (ValueError, c) | Some mosiPort \<Rightarrow>
       case py_nth messageSplitted 6 of Inl e \<Rightarrow> Inl (e, c) | Inr version' \<Rightarrow>
       if misoPort \<le> 0 \<or> misoPort > 65535 then Inl (NameError, c)
       else if mosiPort \<le> 0 \<or> mosiPort > 65535 then Inl (NameError, c)
       else if length mac' \<noteq> 17 then Inl (ValueError, c)
       else
        (case macToIndexMap c mac' of
           Some i \<Rightarrow>
             if flashFlag c \<and> Some version' \<noteq> targetVersion c
             then Inr (listenerSendto (''R|'' @ passcode cfg) senderAddress c)
             else if \<not> i < length (slaves c) then Inl (IndexError, c)
             else if status (slaves c ! i) \<in> {SS_DISCONNECTED, SS_UPDATING}
             then Inr (setSlaveStatus lock_ok i SS_KNOWN
                         (Some (fst senderAddress, misoPort, mosiPort, version')) c)
             else Inr c
         | None \<Rightarrow>
             (let i = length (slaves c);
                  new = FCSlave cfg newName mac' (defaultFans cfg) SS_AVAILABLE (Some version')
                          (Some (fst senderAddress)) (Some misoPort) (Some mosiPort) i;
                  c1 = c\<lparr>slaves := slaves c @ [new]\<rparr>;
                  c2 = c1\<lparr>macToIndexMap := (macToIndexMap c1)(mac' \<mapsto> i)\<rparr>;
                  c3 = sendSlaves c2
              in Inr (c3\<lparr>slaves := (slaves c3)[i := (slaves c3 ! i)\<lparr>started := True\<rparr>]\<rparr>))))
     else if kind = ''E'' then Inr c
     else Inl (IndexError, c))"

text \<open>
  The body of the branch for a message of the bootloader (first character \<open>B\<close>).
\<close>

definition bootloader ::
  "config \<Rightarrow> bool \<Rightarrow> string list \<Rightarrow> address \<Rightarrow> comm \<Rightarrow> (exn \<times> comm) + comm" where
  "bootloader cfg lock_ok messageSplitted senderAddress c =
    (case py_nth messageSplitted 3 of Inl e \<Rightarrow> Inl (e, c) | Inr kind \<Rightarrow>
     if kind = ''N'' then
      (let c1 = listenerSendto
                  (if \<not> flashFlag c then ''L|'' @ passcode cfg else flashMessage c)
                  senderAddress c
       in case py_nth messageSplitted 2 of Inl e \<Rightarrow> Inl (e, c1) | Inr mac' \<Rightarrow>
          (case macToIndexMap c1 mac' of
             Some i \<Rightarrow>
               if \<not> i < length (slaves c1) then Inl (IndexError, c1)
               else
                (let version' = (case py_nth messageSplitted 4 of
                                   Inl e \<Rightarrow> ''Bootloader(?)'' | Inr v \<Rightarrow> v);
                     c2 = c1\<lparr>slaves := (slaves c1)[i := setVersion version' (slaves c1 ! i)]\<rparr>
                 in Inr (setSlaveStatus lock_ok i SS_UPDATING None c2))
           | None \<Rightarrow> Inr (listenerSendto (''L|'' @ passcode cfg) senderAddress c1)))
     else if kind = ''E'' then
      (case py_nth messageSplitted 4 of Inl e \<Rightarrow> Inl (e, c) | Inr text' \<Rightarrow> Inr c)
     else Inr c)"

text \<open>
  One turn of the listener's loop on a received datagram. The result names the way the
  turn ended: the message was handled, had the wrong passcode, was discarded by the
  branch's own handler of \<open>IndexError\<close>, had an invalid first character, or raised an
  exception that reached the loop's handler of parsing errors (\<open>ValueError\<close>,
  \<open>IndexError\<close>: a warning) or its handler of every other exception (reported as an
  unexpected error). In every case the loop goes on with the returned state.
\<close>

datatype handled = Handled | WrongPasscode | Discarded | InvalidFirst
  | ParsingWarning exn | UnexpectedError exn

definition outer_handler :: "exn \<Rightarrow> handled" where
  "outer_handler e =
     (if e \<in> {ValueError, UnicodeDecodeError, IndexError} then ParsingWarning e
      else UnexpectedError e)"

definition branch_result :: "(exn \<times> comm) + comm \<Rightarrow> handled \<times> comm" where
  "branch_result r =
     (case r of
        Inr c' \<Rightarrow> (Handled, c')
      | Inl (e, c') \<Rightarrow> if e = IndexError then (Discarded, c') else (outer_handler e, c'))"

definition listenerRoutine ::
  "config \<Rightarrow> bool \<Rightarrow> string \<Rightarrow> string \<times> address \<Rightarrow> comm \<Rightarrow> handled \<times> comm" where
  "listenerRoutine cfg lock_ok newName received c =
    (let (messageReceived, senderAddress) = received in
     if \<not> is_ascii messageReceived then (outer_handler UnicodeDecodeError, c)
     else
      (let messageSplitted = split (CHR ''|'') messageReceived in
       case py_nth messageSplitted 1 of Inl e \<Rightarrow> (outer_handler e, c) | Inr code \<Rightarrow>
       if code \<noteq> passcode cfg then (WrongPasscode, c)
       else
        (case py_nth (messageSplitted ! 0) 0 of Inl e \<Rightarrow> (outer_handler e, c) | Inr first \<Rightarrow>
         if first = CHR ''A''
         then branch_result (announce cfg lock_ok newName messageSplitted senderAddress c)
         else if first = CHR ''B''
         then branch_result (bootloader cfg lock_ok messageSplitted senderAddress c)
         else (InvalidFirst, c))))"

subsection \<open>The add operation\<close>

definition add :: "bool \<Rightarrow> int \<Rightarrow> comm \<Rightarrow> exn + comm" where
  "add lock_ok targetIndex c =
     (case py_pos (slaves c) targetIndex of
        None \<Rightarrow> Inl IndexError
      | Some k \<Rightarrow>
          if status (slaves c ! k) = SS_AVAILABLE
          then Inr (setSlaveStatus lock_ok k SS_KNOWN None c)
          else Inr c)"

subsection \<open>The per-device worker\<close>

text \<open>
  What a worker sends: \<open>Mosi n m\<close> is the datagram \<open>n|m\<close> that \<open>_send\<close> hands to the
  device's MOSI socket for the device's port; \<open>Listener d\<close> is the datagram \<open>d\<close> sent by
  \<open>_sendToListener\<close> to the device's address at the broadcast port; \<open>Broadcast d\<close> is
  the datagram \<open>d\<close> sent to the broadcast address.
\<close>

datatype event = Mosi int string | Listener string | Broadcast string

fun wire :: "event \<Rightarrow> string" where
  "wire (Mosi n m) = str_int n @ ''|'' @ m"
| "wire (Listener d) = d"
| "wire (Broadcast d) = d"

text \<open>
  The state of one worker thread: the device record it serves (\<open>target\<close>), the local
  variables of \<open>_slaveRoutine\<close>, the ports of its two sockets, the datagrams waiting in
  its MISO socket (\<open>inbox\<close>), the trace of what it has sent, and the state vectors it has
  put on \<open>slaveUpdateQueue\<close>.
\<close>

record worker =
  target :: slave
  timeouts :: int
  totalTimeouts :: int
  message :: string
  tryBuffer :: bool
  failedHSKs :: int
  MHSK :: string
  sockets :: "nat \<times> nat"
  inbox :: "string list"
  sent :: "event list"
  updates :: "stateVector list"

text \<open>
  \<open>_send\<close>. The socket accepts the datagram at the first attempt, so the loop over
  \<open>repeat\<close> attempts sends it once.
\<close>

definition send :: "string \<Rightarrow> nat \<Rightarrow> bool \<Rightarrow> worker \<Rightarrow> worker" where
  "send message' repeat hsk w =
     (let sl = (if \<not> hsk then incrementMOSIIndex (target w) else setMOSIIndex 0 (target w))
      in w\<lparr>target := sl, sent := sent w @ [Mosi (mosiIndex sl) message']\<rparr>)"

definition sendToListener :: "config \<Rightarrow> string \<Rightarrow> nat \<Rightarrow> worker \<Rightarrow> worker" where
  "sendToListener cfg message' repeat w =
     (if ip (target w) \<noteq> None
      then w\<lparr>sent := sent w @ replicate repeat (Listener (message' @ ''|'' @ passcode cfg))\<rparr>
      else w\<lparr>sent := sent w @ replicate repeat
             (Broadcast (''J|'' @ passcode cfg @ ''|'' @ mac (target w) @ ''|'' @ message'))\<rparr>)"

definition worker_setSlaveStatus :: "bool \<Rightarrow> status \<Rightarrow> worker \<Rightarrow> worker" where
  "worker_setSlaveStatus lock_ok newStatus w =
     (if lock_ok then
        (let sl = setStatus newStatus None (target w)
         in w\<lparr>target := sl, updates := updates w @ [getSlaveStateVector sl]\<rparr>)
      else w)"

text \<open>
  A reply returned by \<open>_receive\<close>: the tuple of the exchange index and the pieces of the
  message; in a message of five pieces the third is converted to an integer.
\<close>

datatype field = FInt int | FStr string

text \<open>
  \<open>_receive\<close>, reading the datagrams waiting in the socket one after the other; the
  empty socket is the timeout. The result is the reply (or \<open>None\<close>), the device record and
  the datagrams left in the socket.
\<close>

fun receive :: "string list \<Rightarrow> slave \<Rightarrow> field list option \<times> slave \<times> string list" where
  "receive [] sl = (None, sl, [])"
| "receive (m # waiting) sl =
     (if \<not> is_ascii m then receive waiting sl
      else
       (let splitted = split (CHR ''|'') m in
        case py_int (splitted ! 0) of
          None \<Rightarrow> receive waiting sl
        | Some i \<Rightarrow>
            if i \<le> misoIndex sl then receive waiting sl
            else if length splitted = 2
            then (Some [FInt i, FStr (splitted ! 1)], setMISOIndex i sl, waiting)
            else if length splitted = 3
            then (Some [FInt i, FStr (splitted ! 1), FStr (splitted ! 2)],
                  setMISOIndex i sl, waiting)
            else if length splitted = 4
            then (Some [FInt i, FStr (splitted ! 1), FStr (splitted ! 2), FStr (splitted ! 3)],
                  setMISOIndex i sl, waiting)
            else if length splitted = 5
            then (case py_int (splitted ! 2) of
                    None \<Rightarrow> receive waiting sl
                  | Some d \<Rightarrow>
                      (Some [FInt i, FStr (splitted ! 1), FInt d, FStr (splitted ! 3),
                             FStr (splitted ! 4)],
                       setMISOIndex i sl, waiting))
            else (None, sl, waiting)))"

definition worker_receive :: "string list \<Rightarrow> worker \<Rightarrow> field list option \<times> worker" where
  "worker_receive arrivals w =
     (case receive (inbox w @ arrivals) (target w) of
        (reply, sl, waiting) \<Rightarrow> (reply, w\<lparr>target := sl, inbox := waiting\<rparr>))"

definition tag :: "field list \<Rightarrow> string" where
  "tag reply = (case reply ! 1 of FStr t \<Rightarrow> t | FInt n \<Rightarrow> [])"

text \<open>
  The telemetry update. \<open>int(x)\<close> of a reply field; the RPMs stored in an array of
  machine integers (of \<open>bits\<close> bits; a value out of their range raises \<open>OverflowError\<close>)
  of \<open>maxFans\<close> zeros; the DCs parsed by \<open>float\<close>, which is the
  parameter \<open>pf\<close> (\<open>None\<close> for its \<open>ValueError\<close>), into an array of \<open>maxFans\<close> floating-point
  zeros.
\<close>

fun field_int :: "field \<Rightarrow> exn + int" where
  "field_int (FInt n) = Inr n"
| "field_int (FStr s) = (case py_int s of None \<Rightarrow> Inl ValueError | Some n \<Rightarrow> Inr n)"

fun field_split :: "field \<Rightarrow> exn + string list" where
  "field_split (FInt n) = Inl AttributeError"
| "field_split (FStr s) = Inr (split (CHR '','') s)"

fun parse_rpms :: "nat \<Rightarrow> string list \<Rightarrow> exn + int list" where
  "parse_rpms bits [] = Inr []"
| "parse_rpms bits (p # ps) =
     (case py_int p of
        None \<Rightarrow> Inl ValueError
      | Some v \<Rightarrow>
          if v < - (2 ^ (bits - 1)) \<or> 2 ^ (bits - 1) \<le> v then Inl OverflowError
          else (case parse_rpms bits ps of Inl e \<Rightarrow> Inl e | Inr vs \<Rightarrow> Inr (v # vs)))"

fun parse_dcs :: "(string \<Rightarrow> pyfloat option) \<Rightarrow> string list \<Rightarrow> exn + pyfloat list" where
  "parse_dcs pf [] = Inr []"
| "parse_dcs pf (p # ps) =
     (case pf p of
        None \<Rightarrow> Inl ValueError
      | Some v \<Rightarrow> (case parse_dcs pf ps of Inl e \<Rightarrow> Inl e | Inr vs \<Rightarrow> Inr (v # vs)))"

definition parse_miso ::
  "(string \<Rightarrow> pyfloat option) \<Rightarrow> config \<Rightarrow> field list \<Rightarrow> exn + (int list \<times> pyfloat list)" where
  "parse_miso pf cfg reply =
    (case py_nth reply (- 2) of Inl e \<Rightarrow> Inl e | Inr f_rpm \<Rightarrow>
     case field_split f_rpm of Inl e \<Rightarrow> Inl e | Inr rpm_parts \<Rightarrow>
     case parse_rpms (intBits cfg) (take (min (length rpm_parts) (maxFans cfg)) rpm_parts) of
       Inl e \<Rightarrow> Inl e
     | Inr rs \<Rightarrow>
     case py_nth reply (- 1) of Inl e \<Rightarrow> Inl e | Inr f_dc \<Rightarrow>
     case field_split f_dc of Inl e \<Rightarrow> Inl e | Inr dc_parts \<Rightarrow>
     case parse_dcs pf (take (min (length dc_parts) (maxFans cfg)) dc_parts) of Inl e \<Rightarrow> Inl e
     | Inr ds \<Rightarrow>
       Inr (rs @ replicate (maxFans cfg - length rs) 0,
            ds @ replicate (maxFans cfg - length ds) (Finite 0)))"

text \<open>
  The branch of the worker for a reply tagged \<open>T\<close>. The result is the device record when
  the branch ends, and the exception that ended it, if any (it reaches the handler of the
  worker's loop, which logs it and goes on). \<open>full\<close> tells that \<open>setMISO\<close> raises
  \<open>queue.Full\<close> instead of storing the pair, which the worker answers with
  \<open>incrementDropIndex\<close>.
\<close>

definition telemetry ::
  "(string \<Rightarrow> pyfloat option) \<Rightarrow> config \<Rightarrow> bool \<Rightarrow> field list \<Rightarrow> slave \<Rightarrow> slave \<times> exn option" where
  "telemetry pf cfg full reply sl =
    (case py_nth reply 2 of Inl e \<Rightarrow> (sl, Some e) | Inr f \<Rightarrow>
     case field_int f of Inl e \<Rightarrow> (sl, Some e) | Inr receivedDataIndex \<Rightarrow>
     if receivedDataIndex > dataIndex sl then
       (let sl1 = setDataIndex receivedDataIndex sl
        in case parse_miso pf cfg reply of
             Inl e \<Rightarrow> (sl1, Some e)
           | Inr pair \<Rightarrow>
               if full then (incrementDropIndex sl1, None)
               else (setMISO pair sl1, None))
     else (sl, None))"

text \<open>
  What one turn of the worker's loop reads from outside the worker: the firmware-update
  flag and target version of the communicator, the command fetched from the device's
  mailbox by \<open>getMOSI\<close>, the datagrams that arrive at the MISO socket before the
  receive times out, the answer of the registry lock, and whether \<open>setMISO\<close> finds its
  queue full.
\<close>

datatype command = MOSI_DC string string | MOSI_DC_MULTI string | MOSI_DISCONNECT | MOSI_REBOOT
  | MOSI_OTHER

record env =
  flashing :: bool
  flashTarget :: "string option"
  fetchedMessage :: "command option"
  arrivals :: "string list"
  lockAcquired :: bool
  misoFull :: bool

definition reply_branch ::
  "(string \<Rightarrow> pyfloat option) \<Rightarrow> config \<Rightarrow> env \<Rightarrow> field list \<Rightarrow> worker \<Rightarrow> worker" where
  "reply_branch pf cfg e reply w =
     (let w0 = w\<lparr>timeouts := 0\<rparr> in
      if tag reply = ''T''
      then w0\<lparr>target := fst (telemetry pf cfg (misoFull e) reply (target w0))\<rparr>
      else if tag reply = ''I'' then w0\<lparr>target := setMISOIndex 0 (target w0)\<rparr>
      else if tag reply = ''P'' then send ''P'' 1 False w0
      else w0)"

definition timeout_branch :: "config \<Rightarrow> env \<Rightarrow> worker \<Rightarrow> worker" where
  "timeout_branch cfg e w =
     (let w1 = w\<lparr>timeouts := timeouts w + 1, totalTimeouts := totalTimeouts w + 1\<rparr> in
      if timeouts w1 = maxTimeouts cfg - 1 then send ''Q'' 2 False w1
      else if timeouts w1 < maxTimeouts cfg then w1
      else if tryBuffer w1 then (send ''Y'' 2 False w1)\<lparr>tryBuffer := False\<rparr>
      else worker_setSlaveStatus (lockAcquired e) SS_DISCONNECTED
             ((sendToListener cfg ''X'' 1 w1)\<lparr>timeouts := 0, totalTimeouts := 0\<rparr>))"

text \<open>One turn of the worker's loop for a CONNECTED device.\<close>

definition connected ::
  "(string \<Rightarrow> pyfloat option) \<Rightarrow> config \<Rightarrow> env \<Rightarrow> worker \<Rightarrow> worker" where
  "connected pf cfg e w =
     (if flashing e \<and> version (target w) \<noteq> flashTarget e
      then worker_setSlaveStatus (lockAcquired e) SS_DISCONNECTED (send ''R'' 1 False w)
      else
       (let w1 = (case fetchedMessage e of
                    None \<Rightarrow> send (message w) 2 False w
                  | Some (MOSI_DC dc selection) \<Rightarrow>
                      (let m = ''S|D:'' @ dc @ '':'' @ selection
                       in send m 2 False (w\<lparr>message := m\<rparr>))
                  | Some (MOSI_DC_MULTI dcs) \<Rightarrow>
                      (let m = ''S|F:'' @ dcs in send m 2 False (w\<lparr>message := m\<rparr>))
                  | Some MOSI_DISCONNECT \<Rightarrow> sendToListener cfg ''X'' 2 w
                  | Some MOSI_REBOOT \<Rightarrow> sendToListener cfg ''R'' 2 w
                  | Some MOSI_OTHER \<Rightarrow> w)
        in case worker_receive (arrivals e) w1 of
             (Some reply, w2) \<Rightarrow> reply_branch pf cfg e reply w2
           | (None, w2) \<Rightarrow> timeout_branch cfg e w2))"

text \<open>
  Turns of the loop from a CONNECTED device on: in a status other than CONNECTED (and
  KNOWN, which this worker never sets from CONNECTED) a turn only sleeps.
\<close>

fun steady ::
  "(string \<Rightarrow> pyfloat option) \<Rightarrow> config \<Rightarrow> env list \<Rightarrow> worker \<Rightarrow> worker" where
  "steady pf cfg [] w = w"
| "steady pf cfg (e # es) w =
     steady pf cfg es (if status (target w) = SS_CONNECTED then connected pf cfg e w else w)"

text \<open>
  The handshake of a KNOWN device. One attempt reads what arrives before its receive
  times out, the ports of the sockets opened if the sockets are reset, and the answer of
  the registry lock. \<open>hskParams\<close> stands for the constants of the descriptor that follow
  the two port numbers. The loop is driven by the list of attempts; \<open>None\<close> says that the
  loop is still running when the list is used up.
\<close>

record attempt =
  received :: "string list"
  freshSockets :: "nat \<times> nat"
  lockAnswer :: bool

definition makeHSK :: "config \<Rightarrow> nat \<times> nat \<Rightarrow> string" where
  "makeHSK cfg ports =
     ''H|'' @ str_nat (fst ports) @ '','' @ str_nat (snd ports) @ '','' @ hskParams cfg"

definition reset_sockets :: "config \<Rightarrow> attempt \<Rightarrow> worker \<Rightarrow> worker" where
  "reset_sockets cfg a w =
     w\<lparr>sockets := freshSockets a, inbox := [], MHSK := makeHSK cfg (freshSockets a),
       failedHSKs := 0\<rparr>"

fun handshake_loop ::
  "config \<Rightarrow> int \<Rightarrow> attempt list \<Rightarrow> worker \<Rightarrow> (worker \<times> attempt list) option" where
  "handshake_loop cfg tries [] w = None"
| "handshake_loop cfg tries (a # rest) w =
     (case worker_receive (received a) w of (reply, w1) \<Rightarrow>
        if reply \<noteq> None \<and> tag (the reply) = ''H''
        then Some ((worker_setSlaveStatus (lockAnswer a) SS_CONNECTED w1)\<lparr>tryBuffer := True\<rparr>, rest)
        else if reply \<noteq> None \<and> tag (the reply) = ''K''
        then handshake_loop cfg tries rest w1
        else if tries > 0
        then handshake_loop cfg (tries - 1) rest (reset_sockets cfg a (send (MHSK w1) 1 True w1))
        else if failedHSKs w1 = 0
        then Some (worker_setSlaveStatus (lockAnswer a) SS_DISCONNECTED (send ''X'' 2 False w1), rest)
        else handshake_loop cfg tries rest (reset_sockets cfg a w1))"

definition handshake :: "config \<Rightarrow> attempt list \<Rightarrow> worker \<Rightarrow> (worker \<times> attempt list) option" where
  "handshake cfg attempts w = handshake_loop cfg 2 attempts (send (MHSK w) 2 True w)"

text \<open>
  Attempts of which each is answered by a reply tagged \<open>K\<close>: the worker after the last
  of them, and \<open>None\<close> when one of them is answered otherwise or not at all.
\<close>

fun acknowledged :: "attempt list \<Rightarrow> worker \<Rightarrow> worker option" where
  "acknowledged [] w = Some w"
| "acknowledged (a # rest) w =
     (case worker_receive (received a) w of
        (None, w1) \<Rightarrow> None
      | (Some reply, w1) \<Rightarrow> if tag reply = ''K'' then acknowledged rest w1 else None)"

text \<open>The worker as it enters its loop, its sockets opened on \<open>ports\<close>.\<close>

definition worker_init :: "config \<Rightarrow> nat \<times> nat \<Rightarrow> slave \<Rightarrow> worker" where
  "worker_init cfg ports sl =
     \<lparr>target = resetIndices sl, timeouts = 0, totalTimeouts = 0,
      message = ''P'', tryBuffer = True, failedHSKs = 0, MHSK = makeHSK cfg ports,
      sockets = ports, inbox = [], sent = [], updates = []\<rparr>"

text \<open>Sends of one connection epoch: messages sent one after the other, none a handshake.\<close>

definition epoch_sends :: "string list \<Rightarrow> worker \<Rightarrow> worker" where
  "epoch_sends ms w = fold (\<lambda>m. send m 1 False) ms w"

text \<open>
  A turn in which the worker has no firmware update to enforce, finds its mailbox empty
  and receives nothing before the timeout.
\<close>

definition silent :: "env \<Rightarrow> bool" where
  "silent e = (\<not> flashing e \<and> fetchedMessage e = None \<and> arrivals e = [])"

fun is_mosi :: "event \<Rightarrow> bool" where
  "is_mosi (Mosi n m) = True"
| "is_mosi (Listener d) = False"
| "is_mosi (Broadcast d) = False"

text \<open>The last command sent again in \<open>n\<close> successive turns, from sequence number \<open>c + 1\<close> on.\<close>

definition resends :: "int \<Rightarrow> string \<Rightarrow> nat \<Rightarrow> event list" where
  "resends c m n = map (\<lambda>j. Mosi (c + 1 + int j) m) [0..<n]"

subsection \<open>Control vectors and the feedback vector\<close>

text \<open>
  The numbers of a control or feedback vector: Python integers and floats side by side.
  The type of the floats is a parameter; the floats of a feedback vector are what
  \<open>float\<close> returned.
\<close>

datatype 'f num = I int | F 'f

text \<open>
  \<open>template.format(*args)\<close> for a template of \<open>n\<close> placeholders separated by commas. The
  text is represented by the list of the values that fill the placeholders, in order; too
  few arguments raise \<open>IndexError\<close>, and arguments beyond the placeholders are ignored.
\<close>

definition format_template :: "nat \<Rightarrow> 'f num list \<Rightarrow> exn + 'f num list" where
  "format_template n args = (if length args < n then Inl IndexError else Inr (take n args))"

text \<open>
  \<open>__handle_input_CTL_DC_VECTOR\<close>. The result lists the calls of \<open>setMOSI\<close> in order:
  the position of the device and the text of its \<open>MOSI_DC_MULTI\<close> command.
  \<open>CTL_I_VECTOR_DC_OFFSET\<close> (a constant of \<open>fc.standards\<close>) is a parameter.
\<close>

function handle_input_CTL_DC_VECTOR_loop ::
  "config \<Rightarrow> slave list \<Rightarrow> 'f num list \<Rightarrow> nat \<Rightarrow> nat \<Rightarrow> (nat \<times> 'f num list) list
     \<Rightarrow> exn + (nat \<times> 'f num list) list" where
  "handle_input_CTL_DC_VECTOR_loop cfg svs C index' i calls =
     (if i < length C \<and> index' < length svs then
        (let slave = svs ! index';
             next_index = index' + 1;
             next_i = i + (if next_index > 0 then fans (svs ! (next_index - 1)) else maxFans cfg)
         in if status slave = SS_CONNECTED then
              (let slaveFans = fans slave;
                   slaveDCs = take slaveFans (drop i C);
                   paddedDCs = slaveDCs @ replicate (maxFans cfg - length slaveDCs) (I 0)
               in case format_template (1 + (maxFans cfg - 1)) paddedDCs of
                    Inl e \<Rightarrow> Inl e
                  | Inr text' \<Rightarrow>
                      handle_input_CTL_DC_VECTOR_loop cfg svs C next_index next_i
                        (calls @ [(index', text')]))
            else handle_input_CTL_DC_VECTOR_loop cfg svs C next_index next_i calls)
      else Inr calls)"
  by pat_completeness auto
termination
  by (relation "measure (\<lambda>(cfg, svs, C, index', i, calls). length svs - index')") auto

definition handle_input_CTL_DC_VECTOR ::
  "config \<Rightarrow> slave list \<Rightarrow> nat \<Rightarrow> 'f num list \<Rightarrow> exn + (nat \<times> 'f num list) list" where
  "handle_input_CTL_DC_VECTOR cfg svs CTL_I_VECTOR_DC_OFFSET C =
     handle_input_CTL_DC_VECTOR_loop cfg svs C 0 CTL_I_VECTOR_DC_OFFSET []"

definition slice_for :: "config \<Rightarrow> slave list \<Rightarrow> 'f num list \<Rightarrow> nat \<Rightarrow> nat \<Rightarrow> 'f num list" where
  "slice_for cfg svs C start k =
     (let s = take (fans (svs ! k)) (drop start C)
      in s @ replicate (maxFans cfg - length s) (I 0))"

definition cursor :: "nat \<Rightarrow> slave list \<Rightarrow> nat \<Rightarrow> nat" where
  "cursor off svs k = off + sum_list (map fans (take k svs))"





subsection \<open>A concrete configuration and registry\<close>

definition cfg0 :: config where
  "cfg0 = \<lparr>passcode = ''CT'', maxFans = 2, maxTimeouts = 2, defaultFans = 1,
            initialMISO = ([], []), hskParams = ''500,1000,2'', intBits = 64\<rparr>"

definition sv0 :: slave where
  "sv0 = FCSlave cfg0 ''Alpha'' ''00:80:e1:38:00:2a'' 1 SS_AVAILABLE (Some ''v1'')
           (Some ''10.0.0.2'') (Some 6000) (Some 6001) 0"

definition comm0 :: comm where
  "comm0 = \<lparr>slaves = [sv0], macToIndexMap = [''00:80:e1:38:00:2a'' \<mapsto> 0], flashFlag = False,
             targetVersion = None, flashMessage = [], listenerSent = [], slavePipe = [],
             slaveUpdateQueue = []\<rparr>"

definition comm1 :: comm where
  "comm1 = comm0\<lparr>slaves := [sv0\<lparr>status := SS_CONNECTED\<rparr>]\<rparr>"

definition comm2 :: comm where
  "comm2 = comm0\<lparr>slaves := [sv0\<lparr>status := SS_DISCONNECTED\<rparr>]\<rparr>"

definition announce0 :: string where
  "announce0 = ''A|CT|00:80:e1:38:00:2b|N|6002|6003|v1''"

definition announce1 :: string where
  "announce1 = ''A|CT|00:80:e1:38:00:2a|N|6002|6003|v2''"

definition announce_bad :: string where
  "announce_bad = ''A|CT|00:80:e1:38:00:2b|N|0|6003|v1''"

definition svs0 :: "slave list" where
  "svs0 = [sv0\<lparr>status := SS_CONNECTED\<rparr>,
           sv0\<lparr>index := 1, mac := ''00:80:e1:38:00:2c'', fans := 2, status := SS_CONNECTED\<rparr>]"

definition ctl0 :: "real num list" where
  "ctl0 = [I 9, F 0.5, F 0.25, F 0.75]"

text \<open>A \<open>float\<close> that reads integer literals only, for the examples.\<close>

definition pf0 :: "string \<Rightarrow> pyfloat option" where
  "pf0 s = map_option (\<lambda>n. Finite (real_of_int n)) (py_int s)"

definition quiet0 :: env where
  "quiet0 = \<lparr>flashing = False, flashTarget = None, fetchedMessage = None, arrivals = [],
             lockAcquired = True, misoFull = False\<rparr>"

definition malformed0 :: env where
  "malformed0 = quiet0\<lparr>arrivals := [''6|T|7|1200,x|1,0'']\<rparr>"

definition wellformed0 :: env where
  "wellformed0 = quiet0\<lparr>arrivals := [''7|T|7|1200,1300|1,0'']\<rparr>"

definition w0 :: worker where
  "w0 = worker_init cfg0 (7000, 7001) (sv0\<lparr>status := SS_CONNECTED\<rparr>)"

definition wk0 :: worker where
  "wk0 = worker_init cfg0 (7000, 7001) (sv0\<lparr>status := SS_KNOWN\<rparr>)"

definition reply0 :: "field list" where
  "reply0 = [FInt 6, FStr ''T'', FInt 7, FStr ''1200,1300'', FStr ''1,0'']"

definition unanswered :: "nat \<times> nat \<Rightarrow> attempt" where
  "unanswered ports = \<lparr>received = [], freshSockets = ports, lockAnswer = True\<rparr>"

definition acked0 :: attempt where
  "acked0 = \<lparr>received = [''1|K''], freshSockets = (7008, 7009), lockAnswer = True\<rparr>"




section \<open>Properties\<close>

lemma py_pos_index: "k < length xs \<Longrightarrow> py_pos xs (int k) = Some k"
  by (simp add: py_pos_def)

text \<open>
  C10 as stated fails: the only registered device is AVAILABLE, the registry lock is not
  acquired within its timeout, and add returns with the device still AVAILABLE.
\<close>

theorem add_lock_timeout_stays_available:
  "status (slaves comm0 ! 0) = SS_AVAILABLE \<and> add False 0 comm0 = Inr comm0"
  by (simp add: add_def py_pos_def setSlaveStatus_def comm0_def sv0_def FCSlave_def)

text \<open>
  C10, amended. Calling add on the index of a registered device raises no error and
  leaves every other record alone. The device becomes KNOWN if and only if its status is
  AVAILABLE and the registry lock is acquired within its timeout: then its record changes
  in its status only. In every other case (another status, or the lock not acquired) the
  communicator is returned unchanged, registry and status included.
\<close>

theorem add_only_available:
  assumes "k < length (slaves c)"
  shows "\<exists>c'. add lock_ok (int k) c = Inr c'
       \<and> length (slaves c') = length (slaves c)
       \<and> (\<forall>j < length (slaves c). j \<noteq> k \<longrightarrow> slaves c' ! j = slaves c ! j)
       \<and> ((status (slaves c' ! k) = SS_KNOWN \<and> status (slaves c ! k) \<noteq> SS_KNOWN)
            = (status (slaves c ! k) = SS_AVAILABLE \<and> lock_ok))
       \<and> (status (slaves c ! k) = SS_AVAILABLE \<and> lock_ok \<longrightarrow>
            slaves c' ! k = (slaves c ! k)\<lparr>status := SS_KNOWN\<rparr>)
       \<and> (status (slaves c ! k) \<noteq> SS_AVAILABLE \<or> \<not> lock_ok \<longrightarrow> c' = c)"
  using assms
  by (auto simp: add_def py_pos_index setSlaveStatus_def setStatus_def Let_def)

theorem add_only_available_witness:
  "0 < length (slaves comm0) \<and> status (slaves comm0 ! 0) = SS_AVAILABLE
   \<and> (\<exists>c'. add True (int 0) comm0 = Inr c'
         \<and> slaves c' ! 0 = (slaves comm0 ! 0)\<lparr>status := SS_KNOWN\<rparr>)
   \<and> add True (int 0) comm1 = Inr comm1"
proof -
  have h: "0 < length (slaves comm0)" "0 < length (slaves comm1)"
    by (simp_all add: comm0_def comm1_def)
  have a: "status (slaves comm0 ! 0) = SS_AVAILABLE" "status (slaves comm1 ! 0) \<noteq> SS_AVAILABLE"
    by (simp_all add: comm0_def comm1_def sv0_def FCSlave_def)
  from add_only_available [OF h(1), of True] add_only_available [OF h(2), of True] a h
  show ?thesis
    by metis
qed

subsection \<open>The discovery listener\<close>

lemma py_nth_numeral:
  "0 \<le> i \<Longrightarrow> nat i < length xs \<Longrightarrow> py_nth xs i = Inr (xs ! nat i)"
  by (auto simp: py_nth_def py_pos_def)

lemma listener_first:
  assumes "split (CHR ''|'') m = ms" "ms ! 0 \<noteq> []" "hd (ms ! 0) = CHR ''A''"
  shows "listenerRoutine cfg lock_ok newName (m, sender) c =
     (if \<not> is_ascii m then (outer_handler UnicodeDecodeError, c)
      else case py_nth ms 1 of Inl e \<Rightarrow> (outer_handler e, c) | Inr code \<Rightarrow>
        if code \<noteq> passcode cfg then (WrongPasscode, c)
        else branch_result (announce cfg lock_ok newName ms sender c))"
proof -
  have "py_nth (ms ! 0) 0 = Inr (CHR ''A'')"
    using assms by (cases "ms ! 0") (auto simp: py_nth_def py_pos_def)
  then show ?thesis
    using assms by (simp add: listenerRoutine_def split: sum.splits)
qed

lemma split_announce0:
  "split (CHR ''|'') announce0 = [''A'', ''CT'', ''00:80:e1:38:00:2b'', ''N'', ''6002'', ''6003'', ''v1'']"
  by (simp add: announce0_def)

lemma split_announce1:
  "split (CHR ''|'') announce1 = [''A'', ''CT'', ''00:80:e1:38:00:2a'', ''N'', ''6002'', ''6003'', ''v2'']"
  by (simp add: announce1_def)

lemma split_announce_bad:
  "split (CHR ''|'') announce_bad = [''A'', ''CT'', ''00:80:e1:38:00:2b'', ''N'', ''0'', ''6003'', ''v1'']"
  by (simp add: announce_bad_def)

lemma py_int_examples:
  "py_int ''6002'' = Some 6002" "py_int ''6003'' = Some 6003" "py_int ''0'' = Some 0"
  by (simp_all add: py_int_def strip_def is_space_def is_digit_def)

text \<open>
  C1. A device announce with the configured passcode, valid ports and a MAC of 17
  characters that the MAC-to-index map does not know is handled by appending exactly one
  record: the registry grows by one, its old records are unchanged, the new record is
  AVAILABLE, carries the old registry size as its index and the announced MAC, the map
  sends the MAC to that index, a registry snapshot (old records, then the new one) is
  published, and the new record's worker is started.
\<close>

theorem announce_unknown_mac_appends:
  assumes ascii: "is_ascii messageReceived"
    and ms: "split (CHR ''|'') messageReceived = ms"
    and len: "7 \<le> length ms"
    and first: "ms ! 0 \<noteq> [] \<and> hd (ms ! 0) = CHR ''A''"
    and code: "ms ! 1 = passcode cfg"
    and kind: "ms ! 3 = ''N''"
    and miso: "py_int (ms ! 4) = Some misoPort" "1 \<le> misoPort" "misoPort \<le> 65535"
    and mosi: "py_int (ms ! 5) = Some mosiPort" "1 \<le> mosiPort" "mosiPort \<le> 65535"
    and mac: "length (ms ! 2) = 17"
    and unknown: "macToIndexMap c (ms ! 2) = None"
  shows "\<exists>c'. listenerRoutine cfg lock_ok newName (messageReceived, senderAddress) c = (Handled, c')
     \<and> length (slaves c') = Suc (length (slaves c))
     \<and> take (length (slaves c)) (slaves c') = slaves c
     \<and> status (last (slaves c')) = SS_AVAILABLE
     \<and> index (last (slaves c')) = length (slaves c)
     \<and> mac (last (slaves c')) = ms ! 2
     \<and> started (last (slaves c'))
     \<and> macToIndexMap c' = (macToIndexMap c)(ms ! 2 \<mapsto> length (slaves c))
     \<and> slavePipe c' = slavePipe c @ [map getSlaveStateVector (slaves c) @
           [(length (slaves c), newName, ms ! 2, SS_AVAILABLE, defaultFans cfg, Some (ms ! 6))]]"
proof -
  have n: "py_nth ms 1 = Inr (ms ! 1)" "py_nth ms 2 = Inr (ms ! 2)" "py_nth ms 3 = Inr (ms ! 3)"
    "py_nth ms 4 = Inr (ms ! 4)" "py_nth ms 5 = Inr (ms ! 5)" "py_nth ms 6 = Inr (ms ! 6)"
    using len by (simp_all add: py_nth_numeral)
  have f: "py_nth (ms ! 0) 0 = Inr (CHR ''A'')"
    using first by (cases "ms ! 0") (auto simp: py_nth_def py_pos_def)
  show ?thesis
    using ascii ms code kind miso mosi mac unknown
    by (simp add: listenerRoutine_def announce_def n f branch_result_def Let_def
        sendSlaves_def FCSlave_def getSlaveStateVector_def nth_append)
qed

theorem announce_unknown_mac_appends_witness:
  "\<exists>c'. listenerRoutine cfg0 True ''Bravo'' (announce0, (''10.0.0.3'', 5000)) comm0 = (Handled, c')
     \<and> length (slaves c') = 2
     \<and> take 1 (slaves c') = slaves comm0
     \<and> status (last (slaves c')) = SS_AVAILABLE
     \<and> index (last (slaves c')) = 1
     \<and> macToIndexMap c' ''00:80:e1:38:00:2b'' = Some 1"
proof -
  let ?ms = "[''A'', ''CT'', ''00:80:e1:38:00:2b'', ''N'', ''6002'', ''6003'', ''v1'']"
  have ascii: "is_ascii announce0"
    by (simp add: is_ascii_def announce0_def)
  have len: "7 \<le> length ?ms" and first: "?ms ! 0 \<noteq> [] \<and> hd (?ms ! 0) = CHR ''A''"
    and code: "?ms ! 1 = passcode cfg0" and kind: "?ms ! 3 = ''N''"
    and miso: "py_int (?ms ! 4) = Some 6002" and mosi: "py_int (?ms ! 5) = Some 6003"
    and mac: "length (?ms ! 2) = 17" and unknown: "macToIndexMap comm0 (?ms ! 2) = None"
    by (simp_all add: py_int_examples cfg0_def comm0_def)
  from announce_unknown_mac_appends [OF ascii split_announce0 len first code kind miso _ _
      mosi _ _ mac unknown, of True "''Bravo''" "(''10.0.0.3'', 5000)"]
  obtain c' where
    "listenerRoutine cfg0 True ''Bravo'' (announce0, (''10.0.0.3'', 5000)) comm0 = (Handled, c')"
    "length (slaves c') = Suc (length (slaves comm0))"
    "take (length (slaves comm0)) (slaves c') = slaves comm0"
    "status (last (slaves c')) = SS_AVAILABLE"
    "index (last (slaves c')) = length (slaves comm0)"
    "macToIndexMap c' = (macToIndexMap comm0)(?ms ! 2 \<mapsto> length (slaves comm0))"
    by auto
  moreover have "length (slaves comm0) = 1"
    by (simp add: comm0_def)
  ultimately show ?thesis
    by (intro exI [of _ c']) simp
qed

lemma announce_keeps:
  assumes "k < length (slaves c)" "status (slaves c ! k) \<notin> {SS_DISCONNECTED, SS_UPDATING}"
  shows "announce cfg lock_ok newName ms sender c = Inr c' \<Longrightarrow> slaves c' ! k = slaves c ! k"
    and "announce cfg lock_ok newName ms sender c = Inl (e, c') \<Longrightarrow> c' = c"
  using assms
  by (auto simp: announce_def Let_def sendSlaves_def listenerSendto_def nth_append
      setSlaveStatus_def nth_list_update
      split: sum.splits option.splits if_splits)

lemma announce_known_transition:
  assumes "7 \<le> length ms" "ms ! 3 = ''N''"
    and "py_int (ms ! 4) = Some misoPort" "1 \<le> misoPort" "misoPort \<le> 65535"
    and "py_int (ms ! 5) = Some mosiPort" "1 \<le> mosiPort" "mosiPort \<le> 65535"
    and "length (ms ! 2) = 17" "macToIndexMap c (ms ! 2) = Some k" "k < length (slaves c)"
    and "\<not> (flashFlag c \<and> Some (ms ! 6) \<noteq> targetVersion c)"
    and "status (slaves c ! k) \<in> {SS_DISCONNECTED, SS_UPDATING}"
  shows "announce cfg True newName ms sender c =
      Inr (setSlaveStatus True k SS_KNOWN (Some (fst sender, misoPort, mosiPort, ms ! 6)) c)"
proof -
  have n: "py_nth ms 2 = Inr (ms ! 2)" "py_nth ms 3 = Inr (ms ! 3)"
    "py_nth ms 4 = Inr (ms ! 4)" "py_nth ms 5 = Inr (ms ! 5)" "py_nth ms 6 = Inr (ms ! 6)"
    using assms(1) by (simp_all add: py_nth_numeral)
  show ?thesis
    using assms by (auto simp: announce_def n)
qed

text \<open>
  C6. Processing a device announce (first character \<open>A\<close>) leaves the record of every
  registered device that is neither DISCONNECTED nor UPDATING exactly as it was: for a
  CONNECTED device the index, status, endpoint and version are unchanged. A record is
  changed only if the device was DISCONNECTED or UPDATING; and a valid announce of the MAC
  of such a device, without a pending firmware mismatch and with the registry lock
  acquired, makes it KNOWN with the sender's address, the announced ports and version.
\<close>

theorem reannounce_connected_untouched:
  assumes ms: "split (CHR ''|'') messageReceived = ms"
    and first: "ms ! 0 \<noteq> []" "hd (ms ! 0) = CHR ''A''"
    and k: "k < length (slaves c)"
  shows "(status (slaves c ! k) = SS_CONNECTED \<longrightarrow>
           slaves (snd (listenerRoutine cfg lock_ok newName (messageReceived, senderAddress) c)) ! k
             = slaves c ! k)
       \<and> (slaves (snd (listenerRoutine cfg lock_ok newName (messageReceived, senderAddress) c)) ! k
             \<noteq> slaves c ! k \<longrightarrow> status (slaves c ! k) \<in> {SS_DISCONNECTED, SS_UPDATING})
       \<and> (is_ascii messageReceived \<and> 7 \<le> length ms \<and> ms ! 1 = passcode cfg \<and> ms ! 3 = ''N''
            \<and> py_int (ms ! 4) = Some misoPort \<and> 1 \<le> misoPort \<and> misoPort \<le> 65535
            \<and> py_int (ms ! 5) = Some mosiPort \<and> 1 \<le> mosiPort \<and> mosiPort \<le> 65535
            \<and> length (ms ! 2) = 17 \<and> macToIndexMap c (ms ! 2) = Some k
            \<and> \<not> (flashFlag c \<and> Some (ms ! 6) \<noteq> targetVersion c)
            \<and> status (slaves c ! k) \<in> {SS_DISCONNECTED, SS_UPDATING} \<longrightarrow>
           slaves (snd (listenerRoutine cfg True newName (messageReceived, senderAddress) c)) ! k
             = (slaves c ! k)\<lparr>status := SS_KNOWN, version := Some (ms ! 6),
                 ip := Some (fst senderAddress), misoP := Some misoPort, mosiP := Some mosiPort\<rparr>)"
proof -
  have keep: "slaves (snd (listenerRoutine cfg lock_ok newName (messageReceived, senderAddress) c)) ! k
      = slaves c ! k" if st: "status (slaves c ! k) \<notin> {SS_DISCONNECTED, SS_UPDATING}"
  proof (cases "announce cfg lock_ok newName ms senderAddress c")
    case (Inl p)
    obtain e c' where p: "p = (e, c')" by (cases p)
    with Inl announce_keeps(2) [OF k st] have "c' = c" by blast
    with Inl p show ?thesis
      by (simp add: listener_first [OF ms first] branch_result_def split: sum.splits)
  next
    case (Inr c')
    with announce_keeps(1) [OF k st] have "slaves c' ! k = slaves c ! k" by blast
    with Inr show ?thesis
      by (simp add: listener_first [OF ms first] branch_result_def split: sum.splits)
  qed
  have known: "slaves (snd (listenerRoutine cfg True newName (messageReceived, senderAddress) c)) ! k
      = (slaves c ! k)\<lparr>status := SS_KNOWN, version := Some (ms ! 6),
           ip := Some (fst senderAddress), misoP := Some misoPort, mosiP := Some mosiPort\<rparr>"
    if h: "is_ascii messageReceived" "7 \<le> length ms" "ms ! 1 = passcode cfg" "ms ! 3 = ''N''"
      "py_int (ms ! 4) = Some misoPort" "1 \<le> misoPort" "misoPort \<le> 65535"
      "py_int (ms ! 5) = Some mosiPort" "1 \<le> mosiPort" "mosiPort \<le> 65535"
      "length (ms ! 2) = 17" "macToIndexMap c (ms ! 2) = Some k"
      "\<not> (flashFlag c \<and> Some (ms ! 6) \<noteq> targetVersion c)"
      "status (slaves c ! k) \<in> {SS_DISCONNECTED, SS_UPDATING}"
  proof -
    have "py_nth ms 1 = Inr (ms ! 1)"
      using h(2) by (simp add: py_nth_numeral)
    with h(1,3) announce_known_transition [OF h(2) h(4-11) h(12) k h(13,14), of cfg newName senderAddress]
    show ?thesis
      using k by (simp add: listener_first [OF ms first] branch_result_def setSlaveStatus_def
          setStatus_def Let_def)
  qed
  show ?thesis
  proof (intro conjI impI)
    assume "status (slaves c ! k) = SS_CONNECTED"
    then show "slaves (snd (listenerRoutine cfg lock_ok newName (messageReceived, senderAddress) c)) ! k
        = slaves c ! k"
      by (intro keep) simp
  next
    assume "slaves (snd (listenerRoutine cfg lock_ok newName (messageReceived, senderAddress) c)) ! k
        \<noteq> slaves c ! k"
    then show "status (slaves c ! k) \<in> {SS_DISCONNECTED, SS_UPDATING}"
      using keep by (cases "status (slaves c ! k) \<in> {SS_DISCONNECTED, SS_UPDATING}") simp_all
  next
    assume "is_ascii messageReceived \<and> 7 \<le> length ms \<and> ms ! 1 = passcode cfg \<and> ms ! 3 = ''N''
            \<and> py_int (ms ! 4) = Some misoPort \<and> 1 \<le> misoPort \<and> misoPort \<le> 65535
            \<and> py_int (ms ! 5) = Some mosiPort \<and> 1 \<le> mosiPort \<and> mosiPort \<le> 65535
            \<and> length (ms ! 2) = 17 \<and> macToIndexMap c (ms ! 2) = Some k
            \<and> \<not> (flashFlag c \<and> Some (ms ! 6) \<noteq> targetVersion c)
            \<and> status (slaves c ! k) \<in> {SS_DISCONNECTED, SS_UPDATING}"
    then show "slaves (snd (listenerRoutine cfg True newName (messageReceived, senderAddress) c)) ! k
        = (slaves c ! k)\<lparr>status := SS_KNOWN, version := Some (ms ! 6),
             ip := Some (fst senderAddress), misoP := Some misoPort, mosiP := Some mosiPort\<rparr>"
      by (elim conjE) (rule known; assumption)
  qed
qed

theorem reannounce_connected_untouched_witness:
  "status (slaves comm1 ! 0) = SS_CONNECTED
   \<and> macToIndexMap comm1 ''00:80:e1:38:00:2a'' = Some 0
   \<and> slaves (snd (listenerRoutine cfg0 True ''Bravo'' (announce1, (''10.0.0.9'', 5000)) comm1)) ! 0
       = slaves comm1 ! 0
   \<and> slaves (snd (listenerRoutine cfg0 True ''Bravo'' (announce1, (''10.0.0.9'', 5000)) comm2)) ! 0
       = sv0\<lparr>status := SS_KNOWN, version := Some ''v2'', ip := Some ''10.0.0.9'',
              misoP := Some 6002, mosiP := Some 6003\<rparr>"
proof -
  let ?ms = "[''A'', ''CT'', ''00:80:e1:38:00:2a'', ''N'', ''6002'', ''6003'', ''v2'']"
  have first: "?ms ! 0 \<noteq> []" "hd (?ms ! 0) = CHR ''A''"
    by simp_all
  have k: "0 < length (slaves comm1)" "0 < length (slaves comm2)"
    by (simp_all add: comm1_def comm2_def comm0_def)
  have c: "status (slaves comm1 ! 0) = SS_CONNECTED"
    "macToIndexMap comm1 ''00:80:e1:38:00:2a'' = Some 0"
    by (simp_all add: comm1_def comm0_def)
  have d: "is_ascii announce1 \<and> 7 \<le> length ?ms \<and> ?ms ! 1 = passcode cfg0 \<and> ?ms ! 3 = ''N''
      \<and> py_int (?ms ! 4) = Some 6002 \<and> (1::int) \<le> 6002 \<and> (6002::int) \<le> 65535
      \<and> py_int (?ms ! 5) = Some 6003 \<and> (1::int) \<le> 6003 \<and> (6003::int) \<le> 65535
      \<and> length (?ms ! 2) = 17 \<and> macToIndexMap comm2 (?ms ! 2) = Some 0
      \<and> \<not> (flashFlag comm2 \<and> Some (?ms ! 6) \<noteq> targetVersion comm2)
      \<and> status (slaves comm2 ! 0) \<in> {SS_DISCONNECTED, SS_UPDATING}"
    by (simp add: is_ascii_def announce1_def py_int_examples cfg0_def comm2_def comm0_def)
  have e: "slaves comm2 ! 0 = sv0\<lparr>status := SS_DISCONNECTED\<rparr>"
    by (simp add: comm2_def comm0_def)
  from reannounce_connected_untouched [where cfg = cfg0 and lock_ok = True
      and newName = "''Bravo''" and senderAddress = "(''10.0.0.9'', 5000)",
      OF split_announce1 first k(1)] c
  have "slaves (snd (listenerRoutine cfg0 True ''Bravo'' (announce1, (''10.0.0.9'', 5000)) comm1)) ! 0
       = slaves comm1 ! 0"
    by blast
  moreover from reannounce_connected_untouched [where cfg = cfg0 and lock_ok = True
      and newName = "''Bravo''" and senderAddress = "(''10.0.0.9'', 5000)"
      and misoPort = 6002 and mosiPort = 6003, OF split_announce1 first k(2)] d
  have "slaves (snd (listenerRoutine cfg0 True ''Bravo'' (announce1, (''10.0.0.9'', 5000)) comm2)) ! 0
       = (slaves comm2 ! 0)\<lparr>status := SS_KNOWN, version := Some (?ms ! 6),
             ip := Some (fst (''10.0.0.9'', 5000::int)), misoP := Some 6002, mosiP := Some 6003\<rparr>"
    by blast
  ultimately show ?thesis
    using c e by simp
qed

lemma invalid_announce_discarded:
  assumes ascii: "is_ascii messageReceived"
    and ms: "split (CHR ''|'') messageReceived = ms"
    and len: "7 \<le> length ms"
    and first: "ms ! 0 \<noteq> []" "hd (ms ! 0) = CHR ''A''"
    and code: "ms ! 1 = passcode cfg"
    and kind: "ms ! 3 = ''N''"
    and ports: "py_int (ms ! 4) = Some misoPort" "py_int (ms ! 5) = Some mosiPort"
    and bad: "misoPort < 1 \<or> 65535 < misoPort \<or> mosiPort < 1 \<or> 65535 < mosiPort
               \<or> length (ms ! 2) \<noteq> 17"
  shows "listenerRoutine cfg lock_ok newName (messageReceived, senderAddress) c =
     (if misoPort < 1 \<or> 65535 < misoPort \<or> mosiPort < 1 \<or> 65535 < mosiPort
      then UnexpectedError NameError else ParsingWarning ValueError, c)"
proof -
  have n: "py_nth ms 1 = Inr (ms ! 1)" "py_nth ms 2 = Inr (ms ! 2)" "py_nth ms 3 = Inr (ms ! 3)"
    "py_nth ms 4 = Inr (ms ! 4)" "py_nth ms 5 = Inr (ms ! 5)" "py_nth ms 6 = Inr (ms ! 6)"
    using len by (simp_all add: py_nth_numeral)
  show ?thesis
    using ascii code kind ports bad
    by (auto simp: listener_first [OF ms first] n announce_def branch_result_def
        outer_handler_def)
qed

text \<open>
  C8, at the datagram \<open>A|CT|00:80:e1:38:00:2b|N|0|6003|v1\<close> (inbound port 0): the message
  is discarded and the communicator is unchanged, but the turn ends in the loop's handler
  of unexpected exceptions with a \<open>NameError\<close>, not in a warning.
\<close>

theorem bad_port_reaches_unexpected_handler:
  "listenerRoutine cfg0 True ''Bravo'' (announce_bad, (''10.0.0.3'', 5000)) comm0
     = (UnexpectedError NameError, comm0)"
proof -
  have ascii: "is_ascii announce_bad"
    by (simp add: is_ascii_def announce_bad_def)
  show ?thesis
    using invalid_announce_discarded [OF ascii split_announce_bad, of cfg0 0 6003 True
        "''Bravo''" "(''10.0.0.3'', 5000)" comm0]
    by (simp add: py_int_examples cfg0_def)
qed

subsection \<open>Full-vector duty-cycle dispatch\<close>

declare handle_input_CTL_DC_VECTOR_loop.simps [simp del]

lemma loop_stop:
  "\<not> (i < length C \<and> index' < length svs) \<Longrightarrow>
     handle_input_CTL_DC_VECTOR_loop cfg svs C index' i calls = Inr calls"
  by (subst handle_input_CTL_DC_VECTOR_loop.simps) auto

lemma loop_step_other:
  "i < length C \<Longrightarrow> index' < length svs \<Longrightarrow> status (svs ! index') \<noteq> SS_CONNECTED \<Longrightarrow>
     handle_input_CTL_DC_VECTOR_loop cfg svs C index' i calls =
     handle_input_CTL_DC_VECTOR_loop cfg svs C (Suc index') (i + fans (svs ! index')) calls"
  by (subst handle_input_CTL_DC_VECTOR_loop.simps) (simp add: Let_def)

lemma loop_step_connected:
  assumes "i < length C" "index' < length svs" "status (svs ! index') = SS_CONNECTED"
    and "0 < maxFans cfg" "fans (svs ! index') \<le> maxFans cfg"
  shows "handle_input_CTL_DC_VECTOR_loop cfg svs C index' i calls =
     handle_input_CTL_DC_VECTOR_loop cfg svs C (Suc index') (i + fans (svs ! index'))
       (calls @ [(index', slice_for cfg svs C i index')])"
  using assms
  by (subst handle_input_CTL_DC_VECTOR_loop.simps)
     (simp add: Let_def format_template_def slice_for_def)

lemma cursor_step:
  assumes "index' < length svs" "index' < k"
  shows "sum_list (map fans (take (k - index') (drop index' svs))) =
     fans (svs ! index') + sum_list (map fans (take (k - Suc index') (drop (Suc index') svs)))"
proof -
  have "k - index' = Suc (k - Suc index')"
    using assms(2) by simp
  moreover have "drop index' svs = svs ! index' # drop (Suc index') svs"
    using assms(1) by (simp add: Cons_nth_drop_Suc)
  ultimately show ?thesis
    by simp
qed

lemma loop_calls:
  assumes "0 < maxFans cfg" "\<forall>sl \<in> set svs. fans sl \<le> maxFans cfg"
  shows "\<exists>new. handle_input_CTL_DC_VECTOR_loop cfg svs C index' i calls = Inr (calls @ new)
     \<and> (\<forall>k. [p. (j, p) \<leftarrow> new, j = k] =
          (if index' \<le> k \<and> k < length svs \<and> status (svs ! k) = SS_CONNECTED
              \<and> i + sum_list (map fans (take (k - index') (drop index' svs))) < length C
           then [slice_for cfg svs C (i + sum_list (map fans (take (k - index') (drop index' svs)))) k]
           else []))"
proof (induction "length svs - index'" arbitrary: index' i calls)
  case 0
  then have "\<not> (i < length C \<and> index' < length svs)"
    by simp
  then show ?case
    by (auto simp: loop_stop)
next
  case (Suc n)
  then have lt: "index' < length svs"
    by simp
  let ?f = "fans (svs ! index')"
  have f: "?f \<le> maxFans cfg"
    using assms(2) lt by simp
  show ?case
  proof (cases "i < length C")
    case False
    then show ?thesis
      by (auto simp: loop_stop)
  next
    case True
    have n: "n = length svs - Suc index'"
      using Suc(2) by simp
    show ?thesis
    proof (cases "status (svs ! index') = SS_CONNECTED")
      case conn: True
      from Suc(1) [OF n, of "i + ?f" "calls @ [(index', slice_for cfg svs C i index')]"]
      obtain new where new:
        "handle_input_CTL_DC_VECTOR_loop cfg svs C (Suc index') (i + ?f)
           (calls @ [(index', slice_for cfg svs C i index')])
           = Inr ((calls @ [(index', slice_for cfg svs C i index')]) @ new)"
        "\<And>k. [p. (j, p) \<leftarrow> new, j = k] =
          (if Suc index' \<le> k \<and> k < length svs \<and> status (svs ! k) = SS_CONNECTED
              \<and> i + ?f + sum_list (map fans (take (k - Suc index') (drop (Suc index') svs))) < length C
           then [slice_for cfg svs C (i + ?f + sum_list (map fans (take (k - Suc index') (drop (Suc index') svs)))) k]
           else [])"
        by blast
      have "[p. (j, p) \<leftarrow> (index', slice_for cfg svs C i index') # new, j = k] =
          (if index' \<le> k \<and> k < length svs \<and> status (svs ! k) = SS_CONNECTED
              \<and> i + sum_list (map fans (take (k - index') (drop index' svs))) < length C
           then [slice_for cfg svs C (i + sum_list (map fans (take (k - index') (drop index' svs)))) k]
           else [])" for k
      proof (cases "k = index'")
        case True
        then show ?thesis
          using new(2) [of k] conn lt \<open>i < length C\<close> by simp
      next
        case False
        show ?thesis
        proof (cases "index' < k")
          case True
          then show ?thesis
            using new(2) [of k] cursor_step [OF lt True] by (simp add: add.assoc)
        next
          case False
          with \<open>k \<noteq> index'\<close> show ?thesis
            using new(2) [of k] by simp
        qed
      qed
      then show ?thesis
        using new(1) loop_step_connected [OF True lt conn assms(1) f, of calls]
        by (intro exI [of _ "(index', slice_for cfg svs C i index') # new"]) simp
    next
      case other: False
      from Suc(1) [OF n, of "i + ?f" calls]
      obtain new where new:
        "handle_input_CTL_DC_VECTOR_loop cfg svs C (Suc index') (i + ?f) calls = Inr (calls @ new)"
        "\<And>k. [p. (j, p) \<leftarrow> new, j = k] =
          (if Suc index' \<le> k \<and> k < length svs \<and> status (svs ! k) = SS_CONNECTED
              \<and> i + ?f + sum_list (map fans (take (k - Suc index') (drop (Suc index') svs))) < length C
           then [slice_for cfg svs C (i + ?f + sum_list (map fans (take (k - Suc index') (drop (Suc index') svs)))) k]
           else [])"
        by blast
      have "[p. (j, p) \<leftarrow> new, j = k] =
          (if index' \<le> k \<and> k < length svs \<and> status (svs ! k) = SS_CONNECTED
              \<and> i + sum_list (map fans (take (k - index') (drop index' svs))) < length C
           then [slice_for cfg svs C (i + sum_list (map fans (take (k - index') (drop index' svs)))) k]
           else [])" for k
      proof (cases "index' < k")
        case True
        then show ?thesis
          using new(2) [of k] cursor_step [OF lt True] by (simp add: add.assoc)
      next
        case False
        then show ?thesis
          using new(2) [of k] other by (cases "k = index'") simp_all
      qed
      then show ?thesis
        using new(1) loop_step_other [OF True lt other, of cfg calls]
        by (intro exI [of _ new]) simp
    qed
  qed
qed

text \<open>
  C9. With a positive maximum fan count that bounds every device's fan count, the
  dispatch raises nothing, and a CONNECTED device at position \<open>k\<close> is sent exactly one
  command when the cursor \<open>offset + fans of the devices 0..k-1\<close> lies inside the control
  vector: the slice of that device's fan count starting at the cursor, padded with zeros
  to the maximum fan count. It is sent nothing when the cursor is past the vector's end.
\<close>

theorem dc_vector_slices_aligned:
  assumes "0 < maxFans cfg" "\<forall>sl \<in> set svs. fans sl \<le> maxFans cfg"
    and "k < length svs" "status (svs ! k) = SS_CONNECTED"
  shows "\<exists>calls. handle_input_CTL_DC_VECTOR cfg svs off C = Inr calls
     \<and> [p. (j, p) \<leftarrow> calls, j = k] =
         (if cursor off svs k < length C
          then [take (fans (svs ! k)) (drop (cursor off svs k) C)
                 @ replicate (maxFans cfg - length (take (fans (svs ! k)) (drop (cursor off svs k) C))) (I 0)]
          else [])"
proof -
  from loop_calls [OF assms(1,2), of C 0 off "[]"]
  obtain new where new: "handle_input_CTL_DC_VECTOR_loop cfg svs C 0 off [] = Inr ([] @ new)"
    "\<And>k. [p. (j, p) \<leftarrow> new, j = k] =
          (if 0 \<le> k \<and> k < length svs \<and> status (svs ! k) = SS_CONNECTED
              \<and> off + sum_list (map fans (take (k - 0) (drop 0 svs))) < length C
           then [slice_for cfg svs C (off + sum_list (map fans (take (k - 0) (drop 0 svs)))) k]
           else [])"
    by blast
  show ?thesis
    using new(1) new(2) [of k] assms(3,4)
    by (intro exI [of _ new]) (simp add: handle_input_CTL_DC_VECTOR_def cursor_def slice_for_def Let_def)
qed


theorem dc_vector_slices_aligned_witness:
  "\<exists>calls. handle_input_CTL_DC_VECTOR cfg0 svs0 (Suc 0) ctl0 = Inr calls
     \<and> [p. (j, p) \<leftarrow> calls, j = 0] = [[F 0.5, I 0]]
     \<and> [p. (j, p) \<leftarrow> calls, j = Suc 0] = [[F 0.25, F 0.75]]"
proof -
  have h: "0 < maxFans cfg0" "\<forall>sl \<in> set svs0. fans sl \<le> maxFans cfg0"
    "0 < length svs0" "Suc 0 < length svs0"
    "status (svs0 ! 0) = SS_CONNECTED" "status (svs0 ! Suc 0) = SS_CONNECTED"
    by (simp_all add: cfg0_def svs0_def sv0_def FCSlave_def)
  have c: "cursor (Suc 0) svs0 0 = Suc 0" "cursor (Suc 0) svs0 (Suc 0) = Suc (Suc 0)"
    "fans (svs0 ! 0) = Suc 0" "fans (svs0 ! Suc 0) = Suc (Suc 0)"
    "maxFans cfg0 = Suc (Suc 0)"
    by (simp_all add: cursor_def svs0_def sv0_def FCSlave_def cfg0_def)
  from dc_vector_slices_aligned [OF h(1,2,3,5), of "Suc 0" ctl0]
    dc_vector_slices_aligned [OF h(1,2,4,6), of "Suc 0" ctl0]
  show ?thesis
    unfolding c by (auto simp: ctl0_def)
qed

subsection \<open>The output publisher\<close>



subsection \<open>Sending: the outbound sequence counter\<close>

lemma epoch_sends_snoc: "epoch_sends (ms @ [m]) w = send m 1 False (epoch_sends ms w)"
  by (simp add: epoch_sends_def)

lemma epoch_sends_trace:
  "mosiIndex (target (epoch_sends ms w)) = mosiIndex (target w) + int (length ms)
   \<and> sent (epoch_sends ms w) =
       sent w @ map (\<lambda>(j, m). Mosi (mosiIndex (target w) + 1 + int j) m) (enumerate 0 ms)"
proof (induction ms rule: rev_induct)
  case Nil
  show ?case by (simp add: epoch_sends_def)
next
  case (snoc m ms)
  then show ?case
    by (simp add: epoch_sends_snoc send_def Let_def enumerate_append_eq)
qed

text \<open>
  C7. A handshake send sets the outbound counter to 0 and any other send adds exactly one
  to it; the datagram sent carries the counter's new value, and its text is that value,
  a bar, and the message. Hence the sends of one epoch carry the sequence numbers
  \<open>c + 1, c + 2, ...\<close> after a counter \<open>c\<close>: strictly increasing.
\<close>

theorem send_sequence_counter:
  "mosiIndex (target (send m r True w)) = 0
   \<and> mosiIndex (target (send m r False w)) = mosiIndex (target w) + 1
   \<and> sent (send m r hsk w) = sent w @ [Mosi (mosiIndex (target (send m r hsk w))) m]
   \<and> wire (last (sent (send m r hsk w))) = str_int (mosiIndex (target (send m r hsk w))) @ ''|'' @ m
   \<and> sent (epoch_sends ms w) =
       sent w @ map (\<lambda>(j, m). Mosi (mosiIndex (target w) + 1 + int j) m) (enumerate 0 ms)
   \<and> sorted_wrt (<) (map (\<lambda>(j, m). mosiIndex (target w) + 1 + int j) (enumerate 0 ms))"
proof -
  have "sorted_wrt (<) (map (\<lambda>(j, m). mosiIndex (target w) + 1 + int j) (enumerate 0 ms))"
    by (simp add: sorted_wrt_map sorted_wrt_iff_nth_less nth_enumerate_eq)
  then show ?thesis
    using epoch_sends_trace [of ms w] by (simp add: send_def Let_def)
qed

subsection \<open>Telemetry\<close>




lemma py_int_T: "py_int ''6'' = Some 6" "py_int ''7'' = Some 7" "py_int ''1200'' = Some 1200"
  "py_int ''x'' = None" "py_int ''1300'' = Some 1300" "py_int ''1'' = Some 1" "py_int ''0'' = Some 0"
  by (simp_all add: py_int_def strip_def is_space_def is_digit_def)


text \<open>
  C2, at the datagram \<open>6|T|7|1200,x|1,0\<close>, received by the worker of a CONNECTED device
  whose stored data index is 0: the stored data index is set to 7 before the payload is
  parsed, parsing the payload raises \<open>ValueError\<close>, which leaves the branch, and the
  feedback pair is not updated. The well-formed datagram \<open>7|T|7|1200,1300|1,0\<close> of the
  same data index, which alone would store its pair, is redundant after it: the feedback
  pair is still not updated.
\<close>

theorem telemetry_index_without_feedback:
  "dataIndex (target w0) = 0
   \<and> dataIndex (target (connected pf0 cfg0 malformed0 w0)) = 7
   \<and> miso (target (connected pf0 cfg0 malformed0 w0)) = miso (target w0)
   \<and> snd (telemetry pf0 cfg0 False [FInt 6, FStr ''T'', FInt 7, FStr ''1200,x'', FStr ''1,0'']
            (target w0)) = Some ValueError
   \<and> miso (target (connected pf0 cfg0 wellformed0 w0)) = ([1200, 1300], [Finite 1, Finite 0])
   \<and> miso (target (steady pf0 cfg0 [malformed0, wellformed0] w0)) = miso (target w0)"
  by (simp add: connected_def malformed0_def wellformed0_def quiet0_def w0_def worker_init_def
      send_def worker_receive_def is_ascii_def py_int_T reply_branch_def tag_def telemetry_def
      py_nth_def py_pos_def parse_miso_def pf0_def cfg0_def sv0_def FCSlave_def Let_def)

text \<open>
  The telemetry branch in general, for a reply tagged \<open>T\<close> that carries the data index
  \<open>d\<close>: if \<open>d\<close> is at most the stored data index, the device record is unchanged; if it
  is greater, the stored data index becomes \<open>d\<close>, and the feedback pair becomes the parsed
  pair when the two payload fields parse and \<open>setMISO\<close> accepts it, and is unchanged
  otherwise. Processing the same reply a second time changes nothing.
\<close>

lemma telemetry_branch:
  assumes "tag reply = ''T''" "py_nth reply 2 = Inr f" "field_int f = Inr d"
  shows "(d \<le> dataIndex (target w) \<longrightarrow> target (reply_branch pf cfg e reply w) = target w)
     \<and> (dataIndex (target w) < d \<longrightarrow>
          dataIndex (target (reply_branch pf cfg e reply w)) = d
          \<and> miso (target (reply_branch pf cfg e reply w)) =
              (case parse_miso pf cfg reply of
                 Inr pair \<Rightarrow> if misoFull e then miso (target w) else pair
               | Inl x \<Rightarrow> miso (target w)))
     \<and> target (reply_branch pf cfg e reply (reply_branch pf cfg e reply w))
         = target (reply_branch pf cfg e reply w)"
  using assms
  by (auto simp: reply_branch_def telemetry_def Let_def split: sum.splits)

lemma telemetry_branch_example:
  "dataIndex (target w0) < 7
   \<and> dataIndex (target (reply_branch pf0 cfg0 quiet0 reply0 w0)) = 7
   \<and> miso (target (reply_branch pf0 cfg0 quiet0 reply0 w0)) = ([1200, 1300], [Finite 1, Finite 0])
   \<and> target (reply_branch pf0 cfg0 quiet0 reply0 (reply_branch pf0 cfg0 quiet0 reply0 w0))
       = target (reply_branch pf0 cfg0 quiet0 reply0 w0)"
proof -
  have h: "tag reply0 = ''T''" "py_nth reply0 2 = Inr (FInt 7)" "field_int (FInt 7) = Inr 7"
    by (simp_all add: tag_def reply0_def py_nth_def py_pos_def)
  have d: "dataIndex (target w0) < 7"
    by (simp add: w0_def worker_init_def sv0_def FCSlave_def)
  have p: "parse_miso pf0 cfg0 reply0 = Inr ([1200, 1300], [Finite 1, Finite 0])"
    by (simp add: parse_miso_def reply0_def py_nth_def py_pos_def cfg0_def pf0_def py_int_T)
  from telemetry_branch [OF h, of w0 pf0 cfg0 quiet0] d p show ?thesis
    by (simp add: quiet0_def)
qed

subsection \<open>The feedback vector\<close>





subsection \<open>The handshake\<close>

lemma worker_receive_empty:
  "inbox w = [] \<Longrightarrow> worker_receive [] w = (None, w)"
  by (simp add: worker_receive_def)

lemma receive_keeps:
  "receive ms sl = (reply, sl', waiting) \<Longrightarrow> sl' = sl\<lparr>misoIndex := misoIndex sl'\<rparr>"
  by (induction ms sl rule: receive.induct)
     (auto simp: Let_def split: if_splits option.splits)

lemma worker_receive_keeps:
  assumes "worker_receive arr w = (reply, w1)"
  shows "sent w1 = sent w" "MHSK w1 = MHSK w" "failedHSKs w1 = failedHSKs w"
    "status (target w1) = status (target w)" "mosiIndex (target w1) = mosiIndex (target w)"
proof -
  obtain r sl waiting where r: "receive (inbox w @ arr) (target w) = (r, sl, waiting)"
    by (cases "receive (inbox w @ arr) (target w)") auto
  from receive_keeps [OF r] have "sl = (target w)\<lparr>misoIndex := misoIndex sl\<rparr>" .
  then have "status sl = status (target w)" "mosiIndex sl = mosiIndex (target w)"
    by (metis slave.select_convs slave.surjective slave.update_convs)+
  with assms r show "sent w1 = sent w" "MHSK w1 = MHSK w" "failedHSKs w1 = failedHSKs w"
    "status (target w1) = status (target w)" "mosiIndex (target w1) = mosiIndex (target w)"
    by (auto simp: worker_receive_def)
qed

lemma acknowledged_loop:
  "acknowledged ks v = Some v' \<Longrightarrow>
     handshake_loop cfg tries (ks @ rest) v = handshake_loop cfg tries rest v'
     \<and> sent v' = sent v \<and> MHSK v' = MHSK v \<and> failedHSKs v' = failedHSKs v
     \<and> status (target v') = status (target v) \<and> mosiIndex (target v') = mosiIndex (target v)"
proof (induction ks arbitrary: v)
  case Nil
  then show ?case by simp
next
  case (Cons a ks)
  obtain r w1 where r: "worker_receive (received a) v = (r, w1)"
    by (cases "worker_receive (received a) v") auto
  with Cons.prems obtain reply where k: "r = Some reply" "tag reply = ''K''"
    "acknowledged ks w1 = Some v'"
    by (auto split: option.splits if_splits)
  from Cons.IH [OF k(3)] worker_receive_keeps [OF r] r k(1,2) show ?case
    by simp
qed

lemma unanswered_loop:
  assumes "inbox v = []" "failedHSKs v = 0"
    and "received a1 = []" "received a2 = []" "received a3 = []"
  shows "\<exists>w'. handshake_loop cfg 2 (a1 # a2 # a3 # rest) v = Some (w', rest)
     \<and> sent w' = sent v @ [Mosi 0 (MHSK v), Mosi 0 (makeHSK cfg (freshSockets a1)), Mosi 1 ''X'']
     \<and> status (target w') = (if lockAnswer a3 then SS_DISCONNECTED else status (target v))"
  using assms
  by (simp add: worker_receive_def send_def reset_sockets_def
      worker_setSlaveStatus_def setStatus_def Let_def)

text \<open>
  C4 as stated fails: nothing arrives during the handshake of a KNOWN device and the
  registry lock is not acquired within its timeout when the retries are used up; the
  worker has sent the descriptor three times and the disconnect message \<open>X\<close>, and the
  device is still KNOWN.
\<close>

theorem handshake_lock_timeout_stays_known:
  "status (target wk0) = SS_KNOWN
   \<and> map_option (status \<circ> target \<circ> fst)
       (handshake cfg0 [unanswered (7002, 7003), unanswered (7004, 7005),
                        (unanswered (7006, 7007))\<lparr>lockAnswer := False\<rparr>] wk0) = Some SS_KNOWN
   \<and> map_option (sent \<circ> fst)
       (handshake cfg0 [unanswered (7002, 7003), unanswered (7004, 7005),
                        (unanswered (7006, 7007))\<lparr>lockAnswer := False\<rparr>] wk0)
       = Some [Mosi 0 (makeHSK cfg0 (7000, 7001)), Mosi 0 (makeHSK cfg0 (7000, 7001)),
               Mosi 0 (makeHSK cfg0 (7002, 7003)), Mosi 1 ''X'']"
  by (simp add: handshake_def wk0_def worker_init_def unanswered_def worker_receive_def send_def
      reset_sockets_def worker_setSlaveStatus_def Let_def)

text \<open>
  C4, amended. When the handshake of a device is answered by nothing but replies tagged
  \<open>K\<close>, however many, and then three receives in a row time out, the handshake loop ends
  at the third of them: the worker has sent the descriptor three times in all (the first
  send and the two retries, each with sequence number 0; the replies tagged \<open>K\<close> have used
  up no retry and caused no send), then sends the disconnect message \<open>X\<close> once, and the
  status becomes DISCONNECTED when the registry lock is acquired within its timeout; when
  it is not, the status is left as it was.
\<close>

theorem handshake_unanswered_disconnects:
  assumes "failedHSKs w = 0"
    and "acknowledged ks (send (MHSK w) 2 True w) = Some v" "inbox v = []"
    and "received a1 = []" "received a2 = []" "received a3 = []"
  shows "\<exists>w'. handshake cfg (ks @ a1 # a2 # a3 # rest) w = Some (w', rest)
           \<and> sent w' = sent w @ [Mosi 0 (MHSK w), Mosi 0 (MHSK w),
                                  Mosi 0 (makeHSK cfg (freshSockets a1)), Mosi 1 ''X'']
           \<and> status (target w') = (if lockAnswer a3 then SS_DISCONNECTED else status (target w))"
proof -
  let ?v0 = "send (MHSK w) 2 True w"
  note k = acknowledged_loop [OF assms(2), of cfg 2 "a1 # a2 # a3 # rest"]
  have v0: "sent ?v0 = sent w @ [Mosi 0 (MHSK w)]" "MHSK ?v0 = MHSK w"
    "failedHSKs ?v0 = failedHSKs w" "status (target ?v0) = status (target w)"
    by (simp_all add: send_def Let_def)
  have f: "failedHSKs v = 0"
    using k v0 assms(1) by simp
  from unanswered_loop [OF assms(3) f assms(4-6), of cfg rest]
  obtain w' where w': "handshake_loop cfg 2 (a1 # a2 # a3 # rest) v = Some (w', rest)"
    "sent w' = sent v @ [Mosi 0 (MHSK v), Mosi 0 (makeHSK cfg (freshSockets a1)), Mosi 1 ''X'']"
    "status (target w') = (if lockAnswer a3 then SS_DISCONNECTED else status (target v))"
    by blast
  have "handshake cfg (ks @ a1 # a2 # a3 # rest) w = Some (w', rest)"
    using k w'(1) by (simp add: handshake_def)
  moreover have "sent w' = sent w @ [Mosi 0 (MHSK w), Mosi 0 (MHSK w),
      Mosi 0 (makeHSK cfg (freshSockets a1)), Mosi 1 ''X'']"
    using k v0 w'(2) by simp
  moreover have "status (target w') = (if lockAnswer a3 then SS_DISCONNECTED else status (target w))"
    using k v0 w'(3) by simp
  ultimately show ?thesis
    by blast
qed

theorem handshake_unanswered_disconnects_witness:
  "\<exists>w'. handshake cfg0 [acked0, unanswered (7002, 7003), unanswered (7004, 7005),
                        unanswered (7006, 7007)] wk0 = Some (w', [])
     \<and> sent w' = [Mosi 0 (makeHSK cfg0 (7000, 7001)), Mosi 0 (makeHSK cfg0 (7000, 7001)),
                    Mosi 0 (makeHSK cfg0 (7002, 7003)), Mosi 1 ''X'']
     \<and> status (target w') = SS_DISCONNECTED"
proof -
  let ?v = "(send (MHSK wk0) 2 True wk0)\<lparr>target := (target wk0)\<lparr>misoIndex := 1\<rparr>\<rparr>"
  have a: "acknowledged [acked0] (send (MHSK wk0) 2 True wk0) = Some ?v"
    by (simp add: acked0_def worker_receive_def send_def wk0_def worker_init_def is_ascii_def
        py_int_T tag_def Let_def)
  have h: "failedHSKs wk0 = 0" "inbox ?v = []" "received (unanswered (7002, 7003)) = []"
    "received (unanswered (7004, 7005)) = []" "received (unanswered (7006, 7007)) = []"
    by (simp_all add: wk0_def worker_init_def unanswered_def send_def Let_def)
  have m: "sent wk0 = []" "MHSK wk0 = makeHSK cfg0 (7000, 7001)"
    "freshSockets (unanswered (7002, 7003)) = (7002, 7003)"
    "lockAnswer (unanswered (7006, 7007))"
    by (simp_all add: wk0_def worker_init_def unanswered_def)
  from handshake_unanswered_disconnects [OF h(1) a h(2-5), of cfg0 "[]"] show ?thesis
    by (simp add: m)
qed

subsection \<open>Missed replies\<close>

lemma steady_append: "steady pf cfg (xs @ ys) w = steady pf cfg ys (steady pf cfg xs w)"
  by (induction xs arbitrary: w) simp_all

lemma silent_turn:
  assumes "status (target w) = SS_CONNECTED" "inbox w = []" "silent e"
  shows "connected pf cfg e w = timeout_branch cfg e (send (message w) 2 False w)"
proof -
  have "inbox (send (message w) 2 False w) = []"
    using assms(2) by (simp add: send_def Let_def)
  then have "worker_receive [] (send (message w) 2 False w) = (None, send (message w) 2 False w)"
    by (rule worker_receive_empty)
  then show ?thesis
    using assms(1,3) by (simp add: connected_def silent_def)
qed

lemma resends_Suc: "resends c m (Suc n) = Mosi (c + 1) m # resends (c + 1) m n"
  by (simp add: resends_def map_upt_Suc del: upt_Suc)

lemma quiet_phase:
  assumes "status (target w) = SS_CONNECTED" "inbox w = []" "\<forall>e \<in> set es. silent e"
    and "timeouts w + int (length es) < maxTimeouts cfg - 1"
  shows "steady pf cfg es w =
     w\<lparr>target := (target w)\<lparr>mosiIndex := mosiIndex (target w) + int (length es)\<rparr>,
       timeouts := timeouts w + int (length es),
       totalTimeouts := totalTimeouts w + int (length es),
       sent := sent w @ resends (mosiIndex (target w)) (message w) (length es)\<rparr>"
  using assms
proof (induction es arbitrary: w)
  case Nil
  show ?case by (simp add: resends_def)
next
  case (Cons e es)
  let ?w1 = "w\<lparr>target := (target w)\<lparr>mosiIndex := mosiIndex (target w) + 1\<rparr>,
       timeouts := timeouts w + 1, totalTimeouts := totalTimeouts w + 1,
       sent := sent w @ [Mosi (mosiIndex (target w) + 1) (message w)]\<rparr>"
  have step: "connected pf cfg e w = ?w1"
    using Cons.prems by (simp add: silent_turn timeout_branch_def send_def Let_def)
  have "steady pf cfg es ?w1 =
     ?w1\<lparr>target := (target ?w1)\<lparr>mosiIndex := mosiIndex (target ?w1) + int (length es)\<rparr>,
       timeouts := timeouts ?w1 + int (length es),
       totalTimeouts := totalTimeouts ?w1 + int (length es),
       sent := sent ?w1 @ resends (mosiIndex (target ?w1)) (message ?w1) (length es)\<rparr>"
    using Cons.prems by (intro Cons.IH) simp_all
  then show ?case
    using Cons.prems(1) step by (simp add: resends_Suc add.assoc)
qed

lemma probes_then_disconnect:
  assumes "status (target w) = SS_CONNECTED" "inbox w = []" "tryBuffer w" "ip (target w) \<noteq> None"
    and "timeouts w = maxTimeouts cfg - 2"
    and "silent eQ" "silent eY" "silent eX" "lockAcquired eX"
  shows "status (target (steady pf cfg [eQ, eY] w)) = SS_CONNECTED"
    and "status (target (steady pf cfg [eQ, eY, eX] w)) = SS_DISCONNECTED"
    and "sent (steady pf cfg [eQ, eY, eX] w) = sent w @
          [Mosi (mosiIndex (target w) + 1) (message w), Mosi (mosiIndex (target w) + 2) ''Q'',
           Mosi (mosiIndex (target w) + 3) (message w), Mosi (mosiIndex (target w) + 4) ''Y'',
           Mosi (mosiIndex (target w) + 5) (message w), Listener (''X|'' @ passcode cfg)]"
proof -
  let ?c = "mosiIndex (target w)"
  let ?w1 = "w\<lparr>target := (target w)\<lparr>mosiIndex := ?c + 2\<rparr>,
       timeouts := maxTimeouts cfg - 1, totalTimeouts := totalTimeouts w + 1,
       sent := sent w @ [Mosi (?c + 1) (message w), Mosi (?c + 2) ''Q'']\<rparr>"
  let ?w2 = "w\<lparr>target := (target w)\<lparr>mosiIndex := ?c + 4\<rparr>,
       timeouts := maxTimeouts cfg, totalTimeouts := totalTimeouts w + 2, tryBuffer := False,
       sent := sent w @ [Mosi (?c + 1) (message w), Mosi (?c + 2) ''Q'',
                         Mosi (?c + 3) (message w), Mosi (?c + 4) ''Y'']\<rparr>"
  have s1: "connected pf cfg eQ w = ?w1"
    using assms by (simp add: silent_turn timeout_branch_def send_def Let_def)
  have s2: "connected pf cfg eY ?w1 = ?w2"
    using assms by (simp add: silent_turn timeout_branch_def send_def Let_def)
  have s3: "status (target (connected pf cfg eX ?w2)) = SS_DISCONNECTED"
    "sent (connected pf cfg eX ?w2) = sent w @
          [Mosi (?c + 1) (message w), Mosi (?c + 2) ''Q'', Mosi (?c + 3) (message w),
           Mosi (?c + 4) ''Y'', Mosi (?c + 5) (message w), Listener (''X|'' @ passcode cfg)]"
    using assms
    by (simp_all add: silent_turn timeout_branch_def send_def Let_def sendToListener_def
        worker_setSlaveStatus_def setStatus_def)
  show "status (target (steady pf cfg [eQ, eY] w)) = SS_CONNECTED"
    using assms(1) by (simp add: s1 s2)
  show "status (target (steady pf cfg [eQ, eY, eX] w)) = SS_DISCONNECTED"
    using assms(1) s3(1) by (simp add: s1 s2)
  show "sent (steady pf cfg [eQ, eY, eX] w) = sent w @
          [Mosi (?c + 1) (message w), Mosi (?c + 2) ''Q'', Mosi (?c + 3) (message w),
           Mosi (?c + 4) ''Y'', Mosi (?c + 5) (message w), Listener (''X|'' @ passcode cfg)]"
    using assms(1) s3(2) by (simp add: s1 s2)
qed

text \<open>
  C3 as stated fails: with the maximum of 2 missed replies, a CONNECTED worker that starts
  with a missed-reply counter of zero and receives nothing in 2 successive turns has sent
  the probes \<open>Q\<close> and \<open>Y\<close>, no disconnect message, and its device is still CONNECTED.
\<close>

theorem two_silent_turns_still_connected:
  "maxTimeouts cfg0 = 2 \<and> status (target w0) = SS_CONNECTED \<and> timeouts w0 = 0
   \<and> status (target (steady pf0 cfg0 [quiet0, quiet0] w0)) = SS_CONNECTED
   \<and> sent (steady pf0 cfg0 [quiet0, quiet0] w0) =
        [Mosi 1 ''P'', Mosi 2 ''Q'', Mosi 3 ''P'', Mosi 4 ''Y'']"
  by (simp add: cfg0_def w0_def worker_init_def sv0_def FCSlave_def quiet0_def connected_def
      send_def worker_receive_def timeout_branch_def Let_def)

text \<open>
  C3, amended. Let the maximum of missed replies be at least 2, and let a CONNECTED
  worker whose reconnect probe is unused since the handshake start with a missed-reply
  counter of zero and receive nothing in successive turns (mailbox empty, no firmware update
  pending). In each turn it sends its last command again. In turn \<open>max - 1\<close> it also
  sends the probe \<open>Q\<close>; in turn \<open>max\<close> it also sends the reconnect probe \<open>Y\<close> and the
  device is still CONNECTED; in turn \<open>max + 1\<close> it sends exactly one disconnect message
  to the device's listener and, the registry lock being acquired, the device becomes
  DISCONNECTED.
\<close>

theorem silent_turns_disconnect:
  assumes "maxTimeouts cfg = int (length es) + 2"
    and "status (target w) = SS_CONNECTED" "timeouts w = 0" "tryBuffer w" "inbox w = []"
    and "ip (target w) \<noteq> None"
    and "\<forall>e \<in> set es. silent e" "silent eQ" "silent eY" "silent eX" "lockAcquired eX"
  shows "status (target (steady pf cfg (es @ [eQ, eY]) w)) = SS_CONNECTED
     \<and> status (target (steady pf cfg (es @ [eQ, eY, eX]) w)) = SS_DISCONNECTED
     \<and> sent (steady pf cfg (es @ [eQ, eY, eX]) w) =
         sent w @ resends (mosiIndex (target w)) (message w) (length es) @
          [Mosi (mosiIndex (target w) + int (length es) + 1) (message w),
           Mosi (mosiIndex (target w) + int (length es) + 2) ''Q'',
           Mosi (mosiIndex (target w) + int (length es) + 3) (message w),
           Mosi (mosiIndex (target w) + int (length es) + 4) ''Y'',
           Mosi (mosiIndex (target w) + int (length es) + 5) (message w),
           Listener (''X|'' @ passcode cfg)]
     \<and> filter (\<lambda>x. \<not> is_mosi x) (sent (steady pf cfg (es @ [eQ, eY, eX]) w)) =
         filter (\<lambda>x. \<not> is_mosi x) (sent w) @ [Listener (''X|'' @ passcode cfg)]"
proof -
  let ?v = "steady pf cfg es w"
  have v: "?v = w\<lparr>target := (target w)\<lparr>mosiIndex := mosiIndex (target w) + int (length es)\<rparr>,
       timeouts := timeouts w + int (length es),
       totalTimeouts := totalTimeouts w + int (length es),
       sent := sent w @ resends (mosiIndex (target w)) (message w) (length es)\<rparr>"
    using assms by (intro quiet_phase) simp_all
  have pre: "status (target ?v) = SS_CONNECTED" "inbox ?v = []" "tryBuffer ?v"
    "ip (target ?v) \<noteq> None" "timeouts ?v = maxTimeouts cfg - 2"
    using assms by (simp_all add: v)
  note p = probes_then_disconnect [OF pre assms(8-11), of pf]
  have f: "filter (\<lambda>x. \<not> is_mosi x) (resends c m n) = []" for c m n
    by (simp add: resends_def filter_empty_conv)
  have s: "sent (steady pf cfg (es @ [eQ, eY, eX]) w) =
         sent w @ resends (mosiIndex (target w)) (message w) (length es) @
          [Mosi (mosiIndex (target w) + int (length es) + 1) (message w),
           Mosi (mosiIndex (target w) + int (length es) + 2) ''Q'',
           Mosi (mosiIndex (target w) + int (length es) + 3) (message w),
           Mosi (mosiIndex (target w) + int (length es) + 4) ''Y'',
           Mosi (mosiIndex (target w) + int (length es) + 5) (message w),
           Listener (''X|'' @ passcode cfg)]"
    unfolding steady_append p(3) by (simp add: v)
  show ?thesis
    unfolding s using p(1,2) by (simp add: steady_append f)
qed

theorem silent_turns_disconnect_witness:
  "maxTimeouts cfg0 = int (length ([] :: env list)) + 2
   \<and> status (target (steady pf0 cfg0 [quiet0, quiet0] w0)) = SS_CONNECTED
   \<and> status (target (steady pf0 cfg0 [quiet0, quiet0, quiet0] w0)) = SS_DISCONNECTED
   \<and> sent (steady pf0 cfg0 [quiet0, quiet0, quiet0] w0) =
       [Mosi 1 ''P'', Mosi 2 ''Q'', Mosi 3 ''P'', Mosi 4 ''Y'', Mosi 5 ''P'', Listener ''X|CT'']"
proof -
  have h: "maxTimeouts cfg0 = int (length ([] :: env list)) + 2"
    "status (target w0) = SS_CONNECTED" "timeouts w0 = 0" "tryBuffer w0" "inbox w0 = []"
    "ip (target w0) \<noteq> None" "\<forall>e \<in> set ([] :: env list). silent e" "silent quiet0"
    "lockAcquired quiet0"
    by (simp_all add: cfg0_def w0_def worker_init_def sv0_def FCSlave_def quiet0_def silent_def)
  have m: "sent w0 = []" "mosiIndex (target w0) = 0" "message w0 = ''P''" "passcode cfg0 = ''CT''"
    by (simp_all add: cfg0_def w0_def worker_init_def)
  from silent_turns_disconnect [OF h(1-8) h(8) h(8) h(9), of pf0] h(1) show ?thesis
    by (simp add: m resends_def del: steady.simps)
qed

end
